theory Spec2Isabelle
  imports Main "HOL-Library.Word" "HOL-Library.Sublist"
begin

section \<open>Cache rendezvous: the files and \<open>write_primary\<close>\<close>

text \<open>
  The three backends (\<open>zes-x11-selection-monitor.c\<close>, \<open>zes-xwayland-monitor.c\<close>,
  \<open>zes-wl-selection-monitor.c\<close>) share the cache layout and the body of
  \<open>write_primary\<close>. A payload is a list of bytes (\<open>char\<close> is a byte), the pair
  \<open>(data, len)\<close> of the C code is one list whose length is \<open>len\<close>. The counter
  \<open>seq_counter\<close> is an \<open>unsigned long\<close> (64 bits on the supported platforms).
  The code tests the result of \<open>open\<close> and \<open>fopen\<close>, which are therefore answers of the
  environment; it ignores the results of \<open>write\<close>, \<open>close\<close> and \<open>unlink\<close> on the
  cache files, which are taken to do what they are asked.
\<close>

type_synonym bytes = "char list"

datatype path = PRIMARY_FILE | SEQ_FILE | PID_FILE

type_synonym files = "path \<Rightarrow> bytes option"

text \<open>The system calls that \<open>write_primary\<close> and the shutdown code issue on the cache
  files, one constructor per call. \<open>OpenFailed\<close> is an \<open>open\<close> that returned a negative
  descriptor: it leaves the file as it was.\<close>

datatype fs_op =
    OpenTrunc path
  | OpenFailed path
  | WriteBytes path bytes
  | CloseFile path
  | Unlink path

fun apply_op :: "fs_op \<Rightarrow> files \<Rightarrow> files" where
  "apply_op (OpenTrunc p) fs = fs(p \<mapsto> [])"
| "apply_op (OpenFailed p) fs = fs"
| "apply_op (WriteBytes p d) fs = fs(p \<mapsto> (case fs p of None \<Rightarrow> d | Some old \<Rightarrow> old @ d))"
| "apply_op (CloseFile p) fs = fs"
| "apply_op (Unlink p) fs = fs(p := None)"

fun run_ops :: "fs_op list \<Rightarrow> files \<Rightarrow> files" where
  "run_ops [] fs = fs"
| "run_ops (x # xs) fs = run_ops xs (apply_op x fs)"

fun op_path :: "fs_op \<Rightarrow> path" where
  "op_path (OpenTrunc p) = p"
| "op_path (OpenFailed p) = p"
| "op_path (WriteBytes p d) = p"
| "op_path (CloseFile p) = p"
| "op_path (Unlink p) = p"

text \<open>What the environment answers to the two \<open>open\<close> calls of one publish.\<close>

record io_env =
  primary_opens :: bool
  seq_opens :: bool

text \<open>\<open>snprintf(buf, sizeof(buf), "%lu\n", seq)\<close>: at most 20 digits and the newline fit
  the 24 bytes of \<open>buf\<close>.\<close>

definition digit_char :: "nat \<Rightarrow> char" where
  "digit_char d =
     (if d = 0 then CHR ''0'' else if d = 1 then CHR ''1'' else if d = 2 then CHR ''2''
      else if d = 3 then CHR ''3'' else if d = 4 then CHR ''4'' else if d = 5 then CHR ''5''
      else if d = 6 then CHR ''6'' else if d = 7 then CHR ''7'' else if d = 8 then CHR ''8''
      else CHR ''9'')"

function decimal :: "nat \<Rightarrow> bytes" where
  "decimal n = (if n < 10 then [digit_char n] else decimal (n div 10) @ [digit_char (n mod 10)])"
  by pat_completeness auto
termination
  by (relation "measure (\<lambda>n. n)") auto

declare decimal.simps [simp del]

definition seq_line :: "64 word \<Rightarrow> bytes" where
  "seq_line s = decimal (unat s) @ [CHR 0x0A]"

text \<open>\<open>write_primary(data, len, seq)\<close>, statement by statement.\<close>

definition write_primary_ops :: "io_env \<Rightarrow> bytes \<Rightarrow> 64 word \<Rightarrow> fs_op list" where
  "write_primary_ops io d s =
     (if \<not> primary_opens io then [OpenFailed PRIMARY_FILE]
      else [OpenTrunc PRIMARY_FILE]
           @ (if length d > 0 then [WriteBytes PRIMARY_FILE d] else [])
           @ [CloseFile PRIMARY_FILE]
           @ (if seq_opens io
              then [OpenTrunc SEQ_FILE, WriteBytes SEQ_FILE (seq_line s), CloseFile SEQ_FILE]
              else [OpenFailed SEQ_FILE]))"

definition write_primary :: "io_env \<Rightarrow> bytes \<Rightarrow> 64 word \<Rightarrow> files \<Rightarrow> files" where
  "write_primary io d s fs = run_ops (write_primary_ops io d s) fs"

section \<open>Reading a payload: the bounded read loops\<close>

text \<open>
  The environment of a read loop is a script: what each \<open>poll\<close> and each \<open>read\<close>
  answers, in order. A script that ends stands for a peer that sends nothing more (the
  \<open>poll\<close> times out, the \<open>read\<close> returns 0). \<open>read(fd, buf + total, 4096)\<close> never
  returns more than 4096 bytes, hence the \<open>take 4096\<close>. The allocator is a predicate
  on the requested size. Sizes are \<open>size_t\<close>; they stay below \<open>2 * max_size + 4096\<close>,
  far from wrapping, and are natural numbers here (\<open>tot\<close> is the variable
  \<open>total\<close>).
\<close>

datatype read_res = RdData bytes | RdEOF | RdAgain | RdErr

datatype poll_res =
    PollNone            \<comment> \<open>\<open>ret <= 0\<close>: timeout or error\<close>
  | PollHup             \<comment> \<open>\<open>POLLERR | POLLHUP | POLLNVAL\<close> without \<open>POLLIN\<close>\<close>
  | PollOther           \<comment> \<open>\<open>ret > 0\<close>, neither of the above nor \<open>POLLIN\<close>\<close>
  | PollIn read_res     \<comment> \<open>\<open>POLLIN\<close>, and what the \<open>read\<close> then returns\<close>

definition MAX_SELECTION_SIZE :: nat where
  "MAX_SELECTION_SIZE = 1024 * 1024"

definition MAX_CLIPBOARD_SIZE :: nat where
  "MAX_CLIPBOARD_SIZE = 4 * 1024 * 1024"

definition no_alloc_failure :: "nat \<Rightarrow> bool" where
  "no_alloc_failure n = True"

definition buf_bytes :: "bytes option \<Rightarrow> bytes" where
  "buf_bytes buf = (case buf of None \<Rightarrow> [] | Some b \<Rightarrow> b)"

text \<open>The growth step of \<open>read_fd_with_timeout\<close>; \<open>None\<close> is a \<open>break\<close>.\<close>

definition fd_grow ::
  "(nat \<Rightarrow> bool) \<Rightarrow> nat \<Rightarrow> bytes option \<Rightarrow> nat \<Rightarrow> nat \<Rightarrow> (bytes option \<times> nat) option" where
  "fd_grow alloc max_size buf tot capacity =
     (if tot + 4096 > capacity then
        (let c = (if capacity \<noteq> 0 then capacity * 2 else 4096) in
         if c > max_size then None
         else if \<not> alloc (c + 1) then None
         else Some (Some (buf_bytes buf), c))
      else Some (buf, capacity))"

fun read_fd_loop ::
  "(nat \<Rightarrow> bool) \<Rightarrow> nat \<Rightarrow> poll_res list \<Rightarrow> bytes option \<Rightarrow> nat \<Rightarrow> nat \<Rightarrow> bytes option \<times> nat" where
  "read_fd_loop alloc max_size [] buf tot capacity = (buf, tot)"
| "read_fd_loop alloc max_size (PollNone # ps) buf tot capacity = (buf, tot)"
| "read_fd_loop alloc max_size (PollHup # ps) buf tot capacity = (buf, tot)"
| "read_fd_loop alloc max_size (PollOther # ps) buf tot capacity =
     read_fd_loop alloc max_size ps buf tot capacity"
| "read_fd_loop alloc max_size (PollIn r # ps) buf tot capacity =
     (case fd_grow alloc max_size buf tot capacity of
        None \<Rightarrow> (buf, tot)
      | Some (buf', capacity') \<Rightarrow>
          (case r of
             RdData d \<Rightarrow>
               (if take 4096 d = [] then (buf', tot)
                else read_fd_loop alloc max_size ps (Some (buf_bytes buf' @ take 4096 d))
                       (tot + length (take 4096 d)) capacity')
           | RdEOF \<Rightarrow> (buf', tot)
           | RdAgain \<Rightarrow> read_fd_loop alloc max_size ps buf' tot capacity'
           | RdErr \<Rightarrow> (buf', tot)))"

definition read_fd_with_timeout ::
  "(nat \<Rightarrow> bool) \<Rightarrow> poll_res list \<Rightarrow> nat \<Rightarrow> bytes option \<times> nat" where
  "read_fd_with_timeout alloc fd max_size = read_fd_loop alloc max_size fd None 0 0"

text \<open>A transfer from a Wayland offer: whether \<open>pipe\<close> succeeds, then the script of the
  read end.\<close>

record transfer =
  pipe_ok :: bool
  pipe_script :: "poll_res list"
  alloc_ok :: "nat \<Rightarrow> bool"

definition read_ps_offer :: "transfer \<Rightarrow> bytes option \<times> nat" where
  "read_ps_offer t =
     (if \<not> pipe_ok t then (None, 0)
      else read_fd_with_timeout (alloc_ok t) (pipe_script t) MAX_SELECTION_SIZE)"

definition read_clip_offer :: "transfer \<Rightarrow> bytes option \<times> nat" where
  "read_clip_offer t =
     (if \<not> pipe_ok t then (None, 0)
      else read_fd_with_timeout (alloc_ok t) (pipe_script t) MAX_CLIPBOARD_SIZE)"

text \<open>\<open>read_all_stdin\<close> of the Wayland backend: the cap is \<open>MAX_CLIPBOARD_SIZE\<close>, a failed
  \<open>realloc\<close> keeps what was read.\<close>

definition stdin_grow :: "(nat \<Rightarrow> bool) \<Rightarrow> nat \<Rightarrow> nat \<Rightarrow> nat \<Rightarrow> nat option option" where
  "stdin_grow alloc cap tot capacity =
     (if tot + 4096 > capacity then
        (if capacity * 2 > cap then None
         else if \<not> alloc (capacity * 2) then Some None
         else Some (Some (capacity * 2)))
      else Some (Some capacity))"

fun wl_stdin_loop :: "(nat \<Rightarrow> bool) \<Rightarrow> read_res list \<Rightarrow> bytes \<Rightarrow> nat \<Rightarrow> nat \<Rightarrow> bytes \<times> nat" where
  "wl_stdin_loop alloc rs buf tot capacity =
     (case stdin_grow alloc MAX_CLIPBOARD_SIZE tot capacity of
        None \<Rightarrow> (buf, tot)
      | Some None \<Rightarrow> (buf, tot)
      | Some (Some capacity') \<Rightarrow>
          (case rs of
             [] \<Rightarrow> (buf, tot)
           | RdData d # rs' \<Rightarrow>
               (if take 4096 d = [] then (buf, tot)
                else wl_stdin_loop alloc rs' (buf @ take 4096 d)
                       (tot + length (take 4096 d)) capacity')
           | _ # rs' \<Rightarrow> (buf, tot)))"

definition wl_read_all_stdin :: "(nat \<Rightarrow> bool) \<Rightarrow> read_res list \<Rightarrow> bytes option \<times> nat" where
  "wl_read_all_stdin alloc rs =
     (if \<not> alloc 4096 then (None, 0)
      else (case wl_stdin_loop alloc rs [] 0 4096 of (buf, tot) \<Rightarrow> (Some buf, tot)))"

text \<open>\<open>read_all_stdin\<close> of the X11 backend: the cap is \<open>MAX_SELECTION_SIZE\<close>, a failed
  \<open>realloc\<close> frees the buffer and returns \<open>NULL\<close>.\<close>

fun x11_stdin_loop ::
  "(nat \<Rightarrow> bool) \<Rightarrow> read_res list \<Rightarrow> bytes \<Rightarrow> nat \<Rightarrow> nat \<Rightarrow> (bytes \<times> nat) option" where
  "x11_stdin_loop alloc rs buf tot capacity =
     (case stdin_grow alloc MAX_SELECTION_SIZE tot capacity of
        None \<Rightarrow> Some (buf, tot)
      | Some None \<Rightarrow> None
      | Some (Some capacity') \<Rightarrow>
          (case rs of
             [] \<Rightarrow> Some (buf, tot)
           | RdData d # rs' \<Rightarrow>
               (if take 4096 d = [] then Some (buf, tot)
                else x11_stdin_loop alloc rs' (buf @ take 4096 d)
                       (tot + length (take 4096 d)) capacity')
           | _ # rs' \<Rightarrow> Some (buf, tot)))"

definition x11_read_all_stdin :: "(nat \<Rightarrow> bool) \<Rightarrow> read_res list \<Rightarrow> bytes option \<times> nat" where
  "x11_read_all_stdin alloc rs =
     (if \<not> alloc 4096 then (None, 0)
      else (case x11_stdin_loop alloc rs [] 0 4096 of
              None \<Rightarrow> (None, 0)
            | Some (buf, tot) \<Rightarrow> (Some buf, tot)))"

section \<open>The X11 backend (\<open>zes-x11-selection-monitor.c\<close>)\<close>

text \<open>
  What the X server answers to one \<open>ConvertSelection\<close> handshake: whether the selection
  has an owner, at which of the 100 polls \<open>XCheckTypedWindowEvent\<close> sees the
  \<open>SelectionNotify\<close>, whether its property is set, whether \<open>XGetWindowProperty\<close>
  succeeds, the value stored in the property (format 8, so that \<open>nitems\<close> is the byte
  count) and whether \<open>malloc\<close> succeeds. \<open>XGetWindowProperty\<close> is asked for at most
  \<open>MAX_SELECTION_SIZE / 4\<close> units of 32 bits and returns no more.
\<close>

record x11_reply =
  has_owner :: bool
  notify_seen :: "nat \<Rightarrow> bool"
  property_set :: bool
  getprop_success :: bool
  property_value :: "bytes option"
  malloc_ok :: bool

function wait_notify :: "(nat \<Rightarrow> bool) \<Rightarrow> nat \<Rightarrow> bool" where
  "wait_notify seen i =
     (if i < 100 then (if seen i then True else wait_notify seen (i + 1)) else False)"
  by pat_completeness auto
termination
  by (relation "measure (\<lambda>(seen, i). 100 - i)") auto

declare wait_notify.simps [simp del]

definition XGetWindowProperty :: "nat \<Rightarrow> bytes option \<Rightarrow> bytes option" where
  "XGetWindowProperty long_length v = map_option (take (4 * long_length)) v"

definition get_primary_selection :: "x11_reply \<Rightarrow> bytes option \<times> nat" where
  "get_primary_selection r =
     (if \<not> has_owner r then (None, 0)
      else if wait_notify (notify_seen r) 0 \<and> property_set r then
        (if getprop_success r then
           (case XGetWindowProperty (MAX_SELECTION_SIZE div 4) (property_value r) of
              None \<Rightarrow> (None, 0)
            | Some xdata \<Rightarrow>
                (if length xdata > 0 then
                   (if malloc_ok r then (Some xdata, length xdata) else (None, 0))
                 else (None, 0)))
         else (None, 0))
      else (None, 0))"

text \<open>\<open>get_selection\<close> repeats the body of \<open>get_primary_selection\<close> for the atom it is
  given; the atom only chooses the name of the property (\<open>ZES_SEL\<close> or \<open>ZES_CLIP\<close>).\<close>

datatype atom = PRIMARY | CLIPBOARD

definition get_selection :: "atom \<Rightarrow> x11_reply \<Rightarrow> bytes option \<times> nat" where
  "get_selection selection r =
     (if \<not> has_owner r then (None, 0)
      else if wait_notify (notify_seen r) 0 \<and> property_set r then
        (if getprop_success r then
           (case XGetWindowProperty (MAX_SELECTION_SIZE div 4) (property_value r) of
              None \<Rightarrow> (None, 0)
            | Some xdata \<Rightarrow>
                (if length xdata > 0 then
                   (if malloc_ok r then (Some xdata, length xdata) else (None, 0))
                 else (None, 0)))
         else (None, 0))
      else (None, 0))"

record x11_state =
  x11_running :: bool
  x11_seq_counter :: "64 word"
  x11_cache :: files

definition x11_check_and_update_primary :: "x11_reply \<Rightarrow> io_env \<Rightarrow> x11_state \<Rightarrow> x11_state" where
  "x11_check_and_update_primary r io st =
     (case get_primary_selection r of (sel, len) \<Rightarrow>
        (let seq' = x11_seq_counter st + 1 in
         st\<lparr>x11_seq_counter := seq',
            x11_cache := write_primary io
                           (case sel of None \<Rightarrow> [] | Some d \<Rightarrow> take len d) seq' (x11_cache st)\<rparr>))"

text \<open>The one-shot helpers return the exit status (\<open>main\<close> returns their value) and what
  they wrote to standard output.\<close>

definition x11_run_oneshot :: "x11_reply \<Rightarrow> int \<times> bytes" where
  "x11_run_oneshot r =
     (case get_primary_selection r of
        (Some d, len) \<Rightarrow> (if len > 0 then (0, take len d) else (1, []))
      | (None, len) \<Rightarrow> (1, []))"

definition x11_run_get_clipboard :: "x11_reply \<Rightarrow> int \<times> bytes" where
  "x11_run_get_clipboard r =
     (case get_selection CLIPBOARD r of
        (Some d, len) \<Rightarrow> (if len > 0 then (0, take len d) else (1, []))
      | (None, len) \<Rightarrow> (1, []))"

subsection \<open>\<open>run_copy_clipboard\<close> and its serving child\<close>

datatype x11_event = SelectionRequest | SelectionClear | OtherXEvent

record child_state =
  child_running :: bool
  timeout_count :: int
  selection_served :: bool
  requests_served :: nat

text \<open>The inner loop \<open>while (XPending(dpy) > 0)\<close> over the events that are pending.\<close>

fun serve_pending :: "x11_event list \<Rightarrow> child_state \<Rightarrow> child_state" where
  "serve_pending [] c = c"
| "serve_pending (SelectionRequest # es) c =
     serve_pending es (c\<lparr>requests_served := requests_served c + 1,
                         selection_served := True, timeout_count := 0\<rparr>)"
| "serve_pending (SelectionClear # es) c = c\<lparr>child_running := False\<rparr>"
| "serve_pending (OtherXEvent # es) c = serve_pending es c"

text \<open>One element of the script is one turn of the outer loop: the events pending at its
  start, and whether a \<open>SIGTERM\<close> or \<open>SIGINT\<close> arrives during its \<open>usleep(100000)\<close>.\<close>

datatype child_end = ChildExited child_state | ChildServing child_state

fun x11_serve_loop :: "(x11_event list \<times> bool) list \<Rightarrow> child_state \<Rightarrow> child_end" where
  "x11_serve_loop [] c =
     (if child_running c \<and> timeout_count c < 500 then ChildServing c else ChildExited c)"
| "x11_serve_loop ((evs, sig) # its) c =
     (if \<not> (child_running c \<and> timeout_count c < 500) then ChildExited c
      else (let c1 = serve_pending evs c in
            if \<not> child_running c1 then ChildExited c1
            else (let c2 = (if \<not> selection_served c1
                            then c1\<lparr>timeout_count := timeout_count c1 + 1\<rparr> else c1);
                      c3 = (if sig then c2\<lparr>child_running := False\<rparr> else c2)
                  in x11_serve_loop its c3)))"

definition child_start :: child_state where
  "child_start = \<lparr>child_running = True, timeout_count = 0, selection_served = False,
                  requests_served = 0\<rparr>"

datatype fork_res = ForkFailed | ForkParent | ForkChild

datatype copy_end =
    CopyReturn int         \<comment> \<open>\<open>return\<close> to \<open>main\<close>, which exits with this status\<close>
  | CopyParentExit int     \<comment> \<open>\<open>_exit\<close> of the parent right after \<open>fork\<close>\<close>
  | CopyChildExit int      \<comment> \<open>\<open>_exit\<close> of the child after its serve loop\<close>
  | CopyChildServing       \<comment> \<open>the child is still in its serve loop\<close>

record x11_copy_env =
  copy_alloc :: "nat \<Rightarrow> bool"
  copy_stdin :: "read_res list"
  owner_granted :: bool
  fork_result :: fork_res
  child_script :: "(x11_event list \<times> bool) list"

definition x11_run_copy_clipboard :: "x11_copy_env \<Rightarrow> copy_end" where
  "x11_run_copy_clipboard e =
     (case x11_read_all_stdin (copy_alloc e) (copy_stdin e) of
        (None, data_len) \<Rightarrow> CopyReturn 1
      | (Some d, data_len) \<Rightarrow>
          (if data_len = 0 then CopyReturn 1
           else if \<not> owner_granted e then CopyReturn 1
           else (case fork_result e of
                   ForkFailed \<Rightarrow> CopyReturn 1
                 | ForkParent \<Rightarrow> CopyParentExit 0
                 | ForkChild \<Rightarrow>
                     (case x11_serve_loop (child_script e) child_start of
                        ChildExited c \<Rightarrow> CopyChildExit 0
                      | ChildServing c \<Rightarrow> CopyChildServing))))"

subsection \<open>\<open>run_daemon\<close>\<close>

text \<open>The daemon blocks in \<open>XNextEvent\<close>; the script lists, in order of arrival, the
  events it returns and the signals whose handler clears \<open>running\<close>. The loop tests
  \<open>running\<close> only between two events.\<close>

datatype x11_input =
    Signal
  | XFixesSelectionNotify atom x11_reply io_env
  | OtherEvent

text \<open>
  \<open>ensure_cache_dir\<close> computes the name \<open>cache_dir\<close> (the argument when it is given
  and not empty, else a name built from \<open>XDG_RUNTIME_DIR\<close> or \<open>HOME\<close>), creates the
  directory when \<open>stat\<close> does not find it, and keeps the name as it is: the paths
  \<open>primary_path\<close>, \<open>seq_path\<close> and \<open>pid_path\<close> are relative when \<open>cache_dir\<close> is,
  and a relative path is resolved against the working directory each time it is used.
  \<open>daemon(0, 0)\<close> changes the working directory to \<open>/\<close>. A directory is identified
  by a number. The environment says which directory \<open>cache_dir\<close> names from the
  working directory in which the program starts and which one it names from \<open>/\<close>; an
  absolute name names the former at all times. A disk gives the cache files of every
  directory.
\<close>

type_synonym dir_id = nat

type_synonym disk = "dir_id \<Rightarrow> files"

record dir_env =
  cache_dir_arg :: "string option"
  xdg_runtime_dir :: "string option"
  home_dir :: "string option"
  uid :: "32 word"
  stat_ok :: bool
  mkdir_ok :: bool
  named_from_cwd :: dir_id
  named_from_root :: dir_id

text \<open>\<open>%d\<close> of \<open>(int)getuid()\<close>.\<close>

definition signed_decimal :: "int \<Rightarrow> string" where
  "signed_decimal i = (if i < 0 then CHR ''-'' # decimal (nat (- i)) else decimal (nat i))"

text \<open>The name that \<open>snprintf\<close> leaves in \<open>cache_dir[512]\<close>, or \<open>None\<close> when
  \<open>ensure_cache_dir\<close> returns \<open>-1\<close>. \<open>mkdir_ok\<close> says that \<open>mkdir\<close> succeeded or
  failed with \<open>EEXIST\<close>.\<close>

definition cache_dir_name :: "dir_env \<Rightarrow> string option" where
  "cache_dir_name e =
     (case cache_dir_arg e of
        Some (c # cs) \<Rightarrow> Some (take 511 (c # cs))
      | _ \<Rightarrow>
          (case xdg_runtime_dir e of
             None \<Rightarrow>
               (case home_dir e of
                  None \<Rightarrow> None
                | Some h \<Rightarrow> Some (take 511 (h @ ''/.cache/zsh-edit-select'')))
           | Some runtime \<Rightarrow>
               Some (take 511 (runtime @ ''/zsh-edit-select-''
                                 @ signed_decimal (sint (uid e))))))"

definition ensure_cache_dir :: "dir_env \<Rightarrow> string option" where
  "ensure_cache_dir e =
     (case cache_dir_name e of
        None \<Rightarrow> None
      | Some cache_dir \<Rightarrow>
          (if \<not> stat_ok e \<and> \<not> mkdir_ok e then None else Some cache_dir))"

definition is_absolute :: "string \<Rightarrow> bool" where
  "is_absolute name = (case name of [] \<Rightarrow> False | c # cs \<Rightarrow> c = CHR ''/'')"

text \<open>The directory in which the paths are resolved after \<open>daemon(0, 0)\<close>.\<close>

definition dir_after_chdir :: "dir_env \<Rightarrow> string \<Rightarrow> dir_id" where
  "dir_after_chdir e cache_dir =
     (if is_absolute cache_dir then named_from_cwd e else named_from_root e)"

definition in_dir :: "dir_id \<Rightarrow> (files \<Rightarrow> files) \<Rightarrow> disk \<Rightarrow> disk" where
  "in_dir d f dk = dk(d := f (dk d))"

datatype daemon_end = Exited int disk | Waiting disk

datatype 'a loop_end = Blocked 'a | Stopped 'a

fun x11_daemon_loop :: "x11_input list \<Rightarrow> x11_state \<Rightarrow> x11_state loop_end" where
  "x11_daemon_loop [] st = Blocked st"
| "x11_daemon_loop (Signal # ins) st = x11_daemon_loop ins (st\<lparr>x11_running := False\<rparr>)"
| "x11_daemon_loop (XFixesSelectionNotify a r io # ins) st =
     (let st' = (if a = PRIMARY then x11_check_and_update_primary r io st else st)
      in if x11_running st' then x11_daemon_loop ins st' else Stopped st')"
| "x11_daemon_loop (OtherEvent # ins) st =
     (if x11_running st then x11_daemon_loop ins st else Stopped st)"

definition pid_line :: "nat \<Rightarrow> bytes" where
  "pid_line pid = decimal pid @ [CHR 0x0A]"

definition write_pid :: "bool \<Rightarrow> nat \<Rightarrow> files \<Rightarrow> files" where
  "write_pid fopen_ok pid fs = (if fopen_ok then fs(PID_FILE \<mapsto> pid_line pid) else fs)"

definition unlink_cache :: "files \<Rightarrow> files" where
  "unlink_cache fs = run_ops [Unlink PRIMARY_FILE, Unlink SEQ_FILE, Unlink PID_FILE] fs"

record x11_daemon_env =
  dirs :: dir_env
  xfixes_ok :: bool
  time_now :: "64 word"
  first_io :: io_env
  daemon_ok :: bool
  pid_fopen_ok :: bool
  pid :: nat
  startup_reply :: x11_reply
  startup_io :: io_env
  inputs :: "x11_input list"

text \<open>\<open>run_daemon\<close>: the first \<open>write_primary\<close> comes before \<open>daemon(0, 0)\<close> and
  acts in the directory that \<open>cache_dir\<close> names from the starting directory; the pid
  file, every later \<open>write_primary\<close> and the three \<open>unlink\<close> come after it and act
  in the directory that \<open>cache_dir\<close> names from \<open>/\<close>.\<close>

definition x11_run_daemon :: "x11_daemon_env \<Rightarrow> disk \<Rightarrow> daemon_end" where
  "x11_run_daemon e dk =
     (case ensure_cache_dir (dirs e) of
        None \<Rightarrow> Exited 1 dk
      | Some cache_dir \<Rightarrow>
          (if \<not> xfixes_ok e then Exited 1 dk
           else
             (let dk0 = in_dir (named_from_cwd (dirs e))
                          (write_primary (first_io e) [] (time_now e)) dk
              in if \<not> daemon_ok e then Exited 1 dk0
                 else
                   (let d = dir_after_chdir (dirs e) cache_dir;
                        st1 = \<lparr>x11_running = True, x11_seq_counter = time_now e,
                               x11_cache = write_pid (pid_fopen_ok e) (pid e) (dk0 d)\<rparr>;
                        st2 = x11_check_and_update_primary (startup_reply e) (startup_io e) st1
                    in (case x11_daemon_loop (inputs e) st2 of
                          Blocked st3 \<Rightarrow> Waiting (dk0(d := x11_cache st3))
                        | Stopped st3 \<Rightarrow>
                            Exited 0 (dk0(d := unlink_cache (x11_cache st3))))))))"

section \<open>The Wayland backend (\<open>zes-wl-selection-monitor.c\<close>)\<close>

text \<open>
  The process-wide variables of the file are the fields of one record. An offer is the
  identity of a compositor object. The two lists \<open>ps_destroyed\<close> and
  \<open>clip_destroyed\<close> record, in order, the offers on which the destroy request was
  issued. A handler that reads an offer or writes the cache gets the answers of the
  environment with the event.
\<close>

type_synonym offer = nat

record wl_env =
  xfer :: transfer
  wio :: io_env

record wl_state =
  wl_running :: bool
  current_ps_offer :: "offer option"
  current_clipboard_offer :: "offer option"
  seq_counter :: "64 word"
  ps_has_text :: bool
  clip_has_text :: bool
  surface_configured :: bool
  is_daemon_mode :: bool
  got_selection :: bool
  last_known_content :: "bytes option"
  last_known_len :: nat
  copy_done :: bool
  ps_destroyed :: "offer list"
  clip_destroyed :: "offer list"
  wl_cache :: files

definition wl_start :: "files \<Rightarrow> wl_state" where
  "wl_start fs =
     \<lparr>wl_running = True, current_ps_offer = None, current_clipboard_offer = None,
      seq_counter = 0, ps_has_text = False, clip_has_text = False,
      surface_configured = False, is_daemon_mode = False, got_selection = False,
      last_known_content = None, last_known_len = 0, copy_done = False,
      ps_destroyed = [], clip_destroyed = [], wl_cache = fs\<rparr>"

text \<open>\<open>seq_counter++; write_primary(sel ? sel : "", sel ? len : 0, seq_counter);\<close>\<close>

definition bump_and_write :: "io_env \<Rightarrow> bytes option \<Rightarrow> nat \<Rightarrow> wl_state \<Rightarrow> wl_state" where
  "bump_and_write io sel len st =
     (let s = seq_counter st + 1 in
      st\<lparr>seq_counter := s,
         wl_cache := write_primary io (case sel of None \<Rightarrow> [] | Some d \<Rightarrow> take len d) s
                       (wl_cache st)\<rparr>)"

text \<open>The comparison with \<open>last_known_content\<close>, and the copy kept afterwards.\<close>

definition content_changed :: "bytes option \<Rightarrow> nat \<Rightarrow> bytes option \<Rightarrow> nat \<Rightarrow> bool" where
  "content_changed sel len lkc lkl =
     (if sel = None \<and> lkc \<noteq> None then True
      else if sel \<noteq> None \<and> lkc = None then True
      else if sel \<noteq> None \<and> lkc \<noteq> None
        then (len \<noteq> lkl \<or> take len (buf_bytes sel) \<noteq> take len (buf_bytes lkc))
      else False)"

definition remember :: "(nat \<Rightarrow> bool) \<Rightarrow> bytes option \<Rightarrow> nat \<Rightarrow> wl_state \<Rightarrow> wl_state" where
  "remember alloc sel len st =
     (if sel \<noteq> None \<and> len > 0 then
        (if alloc len then st\<lparr>last_known_content := Some (take len (buf_bytes sel)),
                                last_known_len := len\<rparr>
         else st\<lparr>last_known_content := None, last_known_len := 0\<rparr>)
      else st\<lparr>last_known_content := None, last_known_len := 0\<rparr>)"

definition check_and_update_primary :: "wl_env \<Rightarrow> wl_state \<Rightarrow> wl_state \<times> bool" where
  "check_and_update_primary e st =
     (if current_ps_offer st = None \<or> \<not> ps_has_text st then
        (if last_known_content st \<noteq> None
         then ((bump_and_write (wio e) None 0 st)
                 \<lparr>last_known_content := None, last_known_len := 0\<rparr>, True)
         else (st, False))
      else (case read_ps_offer (xfer e) of (sel, len) \<Rightarrow>
              (let st1 = bump_and_write (wio e) sel len st;
                   changed = content_changed sel len (last_known_content st) (last_known_len st)
               in (remember (alloc_ok (xfer e)) sel len st1, changed))))"

subsection \<open>Listeners\<close>

definition ps_offer_handle_offer :: "string \<Rightarrow> wl_state \<Rightarrow> wl_state" where
  "ps_offer_handle_offer mime_type st =
     (if mime_type = ''text/plain;charset=utf-8'' \<or> mime_type = ''text/plain''
         \<or> mime_type = ''UTF8_STRING'' \<or> mime_type = ''TEXT'' \<or> mime_type = ''STRING''
      then st\<lparr>ps_has_text := True\<rparr> else st)"

definition ps_device_handle_data_offer :: "offer \<Rightarrow> wl_state \<Rightarrow> wl_state" where
  "ps_device_handle_data_offer offer st = st\<lparr>ps_has_text := False\<rparr>"

text \<open>The first statement of \<open>ps_device_handle_selection\<close>:
  \<open>if (current_ps_offer && current_ps_offer != offer) ..._destroy(current_ps_offer);\<close>\<close>

definition ps_release_previous :: "offer option \<Rightarrow> wl_state \<Rightarrow> wl_state" where
  "ps_release_previous offer st =
     (case current_ps_offer st of
        None \<Rightarrow> st
      | Some cur \<Rightarrow> (if Some cur \<noteq> offer then st\<lparr>ps_destroyed := ps_destroyed st @ [cur]\<rparr>
                     else st))"

definition ps_device_handle_selection :: "offer option \<Rightarrow> wl_env \<Rightarrow> wl_state \<Rightarrow> wl_state" where
  "ps_device_handle_selection offer e st =
     (let st1 = ps_release_previous offer st;
          st2 = st1\<lparr>current_ps_offer := offer\<rparr>;
          st3 = st2\<lparr>seq_counter := seq_counter st2 + 1, got_selection := True\<rparr>
      in if \<not> is_daemon_mode st3 then st3
         else if offer = None \<or> \<not> ps_has_text st3 then
           (if last_known_content st3 \<noteq> None
            then (bump_and_write (wio e) None 0 st3)
                   \<lparr>last_known_content := None, last_known_len := 0\<rparr>
            else st3)
         else (case read_ps_offer (xfer e) of (sel, len) \<Rightarrow>
                 (if content_changed sel len (last_known_content st3) (last_known_len st3)
                  then remember (alloc_ok (xfer e)) sel len (bump_and_write (wio e) sel len st3)
                  else st3)))"

definition clip_offer_handle_offer :: "string \<Rightarrow> wl_state \<Rightarrow> wl_state" where
  "clip_offer_handle_offer mime_type st =
     (if mime_type = ''text/plain;charset=utf-8'' \<or> mime_type = ''text/plain''
      then st\<lparr>clip_has_text := True\<rparr> else st)"

definition dd_handle_data_offer :: "offer \<Rightarrow> wl_state \<Rightarrow> wl_state" where
  "dd_handle_data_offer offer st = st\<lparr>clip_has_text := False\<rparr>"

definition dd_release_previous :: "offer option \<Rightarrow> wl_state \<Rightarrow> wl_state" where
  "dd_release_previous offer st =
     (case current_clipboard_offer st of
        None \<Rightarrow> st
      | Some cur \<Rightarrow> (if Some cur \<noteq> offer then st\<lparr>clip_destroyed := clip_destroyed st @ [cur]\<rparr>
                     else st))"

definition dd_handle_selection :: "offer option \<Rightarrow> wl_state \<Rightarrow> wl_state" where
  "dd_handle_selection offer st =
     (let st1 = dd_release_previous offer st in st1\<lparr>current_clipboard_offer := offer\<rparr>)"

definition xdg_surface_handle_configure :: "wl_state \<Rightarrow> wl_state" where
  "xdg_surface_handle_configure st = st\<lparr>surface_configured := True\<rparr>"

definition xdg_toplevel_handle_close :: "wl_state \<Rightarrow> wl_state" where
  "xdg_toplevel_handle_close st = st\<lparr>wl_running := False\<rparr>"

definition ds_handle_cancelled :: "wl_state \<Rightarrow> wl_state" where
  "ds_handle_cancelled st = st\<lparr>copy_done := True\<rparr>"

text \<open>The events the compositor delivers, and their dispatch to the listeners.
  \<open>ds_handle_send\<close> writes the copied bytes to the descriptor it is given and changes
  no variable.\<close>

datatype wl_event =
    PS_DATA_OFFER offer
  | PS_OFFER offer string
  | PS_SELECTION "offer option" wl_env
  | DD_DATA_OFFER offer
  | CLIP_OFFER offer string
  | DD_SELECTION "offer option"
  | XDG_SURFACE_CONFIGURE
  | XDG_TOPLEVEL_CLOSE
  | DS_SEND
  | DS_CANCELLED
  | OTHER_EVENT

fun dispatch :: "wl_event \<Rightarrow> wl_state \<Rightarrow> wl_state" where
  "dispatch (PS_DATA_OFFER offer) st = ps_device_handle_data_offer offer st"
| "dispatch (PS_OFFER offer mime_type) st = ps_offer_handle_offer mime_type st"
| "dispatch (PS_SELECTION offer e) st = ps_device_handle_selection offer e st"
| "dispatch (DD_DATA_OFFER offer) st = dd_handle_data_offer offer st"
| "dispatch (CLIP_OFFER offer mime_type) st = clip_offer_handle_offer mime_type st"
| "dispatch (DD_SELECTION offer) st = dd_handle_selection offer st"
| "dispatch XDG_SURFACE_CONFIGURE st = xdg_surface_handle_configure st"
| "dispatch XDG_TOPLEVEL_CLOSE st = xdg_toplevel_handle_close st"
| "dispatch DS_SEND st = st"
| "dispatch DS_CANCELLED st = ds_handle_cancelled st"
| "dispatch OTHER_EVENT st = st"

fun dispatch_all :: "wl_event list \<Rightarrow> wl_state \<Rightarrow> wl_state" where
  "dispatch_all [] st = st"
| "dispatch_all (ev # evs) st = dispatch_all evs (dispatch ev st)"

subsection \<open>Connection, surface and teardown\<close>

text \<open>\<open>wayland_connect\<close> fails, or binds the globals that the registry announces.\<close>

record wl_globals =
  has_seat :: bool
  has_ps_manager :: bool
  has_ddm :: bool
  has_compositor :: bool
  has_xdg_wm_base :: bool
  has_shm :: bool

record surface_env =
  shm_fd_ok :: bool
  ftruncate_ok :: bool
  buffer_ok :: bool
  surface_ok :: bool
  configure_events :: "wl_event list"
  map_events :: "wl_event list"

definition create_daemon_surface :: "wl_globals \<Rightarrow> surface_env \<Rightarrow> wl_state \<Rightarrow> int \<times> wl_state" where
  "create_daemon_surface g se st =
     (if \<not> has_compositor g \<or> \<not> has_xdg_wm_base g \<or> \<not> has_shm g then (- 1, st)
      else if \<not> shm_fd_ok se then (- 1, st)
      else if \<not> ftruncate_ok se then (- 1, st)
      else if \<not> buffer_ok se then (- 1, st)
      else if \<not> surface_ok se then (- 1, st)
      else (0, dispatch_all (map_events se) (dispatch_all (configure_events se) st)))"

definition wayland_disconnect :: "wl_state \<Rightarrow> wl_state" where
  "wayland_disconnect st =
     (let st1 = (case current_ps_offer st of
                   None \<Rightarrow> st
                 | Some cur \<Rightarrow> st\<lparr>ps_destroyed := ps_destroyed st @ [cur],
                                   current_ps_offer := None\<rparr>)
      in (case current_clipboard_offer st1 of
            None \<Rightarrow> st1
          | Some cur \<Rightarrow> st1\<lparr>clip_destroyed := clip_destroyed st1 @ [cur],
                             current_clipboard_offer := None\<rparr>))"

subsection \<open>\<open>run_oneshot\<close>, \<open>run_get_clipboard\<close>, \<open>run_copy_clipboard\<close>\<close>

text \<open>The waiting loop of \<open>run_oneshot\<close>: each element of the script is what one
  attempt dispatches (nothing when its \<open>poll\<close> times out).\<close>

function oneshot_wait :: "wl_event list list \<Rightarrow> nat \<Rightarrow> wl_state \<Rightarrow> wl_state" where
  "oneshot_wait script attempts st =
     (if \<not> got_selection st \<and> attempts < 50 then
        (case script of
           [] \<Rightarrow> oneshot_wait [] (attempts + 1) st
         | evs # rest \<Rightarrow> oneshot_wait rest (attempts + 1) (dispatch_all evs st))
      else st)"
  by pat_completeness auto
termination
  by (relation "measure (\<lambda>(script, attempts, st). 50 - attempts)") auto

declare oneshot_wait.simps [simp del]

record oneshot_env =
  os_connect :: "wl_globals option"
  os_roundtrip :: "wl_event list"
  os_surface :: surface_env
  os_roundtrip2 :: "wl_event list"
  os_attempts :: "wl_event list list"
  os_cache_dir_arg :: "string option"
  os_cache_dir_ok :: bool
  os_read :: wl_env

text \<open>The first part of \<open>run_oneshot\<close>, from the first roundtrip to the end of the
  waiting loop: the variables once the events have been dispatched.\<close>

definition oneshot_events :: "wl_globals \<Rightarrow> oneshot_env \<Rightarrow> files \<Rightarrow> wl_state" where
  "oneshot_events g e fs =
     (let st0 = (wl_start fs)\<lparr>got_selection := False\<rparr>;
          st1 = dispatch_all (os_roundtrip e) st0
      in if \<not> got_selection st1 \<and> has_compositor g \<and> has_xdg_wm_base g \<and> has_shm g
         then oneshot_wait (os_attempts e) 0
                (dispatch_all (os_roundtrip2 e)
                   (snd (create_daemon_surface g (os_surface e) st1)))
         else st1)"

text \<open>The result is the exit status, the bytes written to standard output and the
  cache files.\<close>

definition wl_run_oneshot :: "oneshot_env \<Rightarrow> files \<Rightarrow> int \<times> bytes \<times> files" where
  "wl_run_oneshot e fs =
     (case os_connect e of
        None \<Rightarrow> (1, [], fs)
      | Some g \<Rightarrow>
          (if \<not> has_ps_manager g \<or> \<not> has_seat g then (1, [], fs)
           else
             (let st2 = oneshot_events g e fs;
                  have_cache = (case os_cache_dir_arg e of
                                  None \<Rightarrow> False
                                | Some dir \<Rightarrow> dir \<noteq> [] \<and> os_cache_dir_ok e)
              in if current_ps_offer st2 \<noteq> None \<and> ps_has_text st2 then
                   (case read_ps_offer (xfer (os_read e)) of (data, len) \<Rightarrow>
                      (if data \<noteq> None \<and> len > 0 then
                         (0, take len (buf_bytes data),
                          (if have_cache
                           then wl_cache (bump_and_write (wio (os_read e)) data len st2)
                           else wl_cache st2))
                       else (0, [], wl_cache st2)))
                 else if have_cache
                   then (0, [], wl_cache (bump_and_write (wio (os_read e)) None 0 st2))
                 else (0, [], wl_cache st2))))"

record get_clip_env =
  gc_connect :: "wl_globals option"
  gc_roundtrip :: "wl_event list"
  gc_read :: transfer

definition wl_run_get_clipboard :: "get_clip_env \<Rightarrow> int \<times> bytes" where
  "wl_run_get_clipboard e =
     (case gc_connect e of
        None \<Rightarrow> (1, [])
      | Some g \<Rightarrow>
          (if \<not> has_ddm g \<or> \<not> has_seat g then (1, [])
           else
             (let st = dispatch_all (gc_roundtrip e) (wl_start (\<lambda>p. None))
              in if current_clipboard_offer st \<noteq> None \<and> clip_has_text st then
                   (case read_clip_offer (gc_read e) of (data, len) \<Rightarrow>
                      (if data \<noteq> None \<and> len > 0 then (0, take len (buf_bytes data))
                       else (0, [])))
                 else (0, []))))"

text \<open>One turn of an event loop of the Wayland backend: the events already queued, the
  flush, whether a terminating signal arrives while the process sits in \<open>poll\<close>, what
  \<open>poll\<close> returns, and \<open>wl_display_get_error\<close> at the end of the turn.\<close>

datatype wl_poll =
    POLL_EINTR
  | POLL_FAIL
  | POLL_TIMEOUT wl_env
  | POLL_IN bool "wl_event list"
  | POLL_NO_INPUT

record wl_turn =
  pending :: "wl_event list"
  flush_ok :: bool
  signalled :: bool
  poll_result :: wl_poll
  display_error :: bool

fun wl_copy_loop :: "wl_turn list \<Rightarrow> wl_state \<Rightarrow> wl_state loop_end" where
  "wl_copy_loop [] st =
     (if wl_running st \<and> \<not> copy_done st then Blocked st else Stopped st)"
| "wl_copy_loop (t # ts) st =
     (if \<not> (wl_running st \<and> \<not> copy_done st) then Stopped st
      else (let st1 = dispatch_all (pending t) st in
            if \<not> flush_ok t then Stopped st1
            else (let st2 = (if signalled t then st1\<lparr>wl_running := False\<rparr> else st1) in
                  (case poll_result t of
                     POLL_EINTR \<Rightarrow> wl_copy_loop ts st2
                   | POLL_FAIL \<Rightarrow> Stopped st2
                   | POLL_TIMEOUT e \<Rightarrow> wl_copy_loop ts st2
                   | POLL_IN read_ok evs \<Rightarrow>
                       (if \<not> read_ok then Stopped st2
                        else (let st3 = dispatch_all evs st2 in
                              if display_error t then Stopped st3 else wl_copy_loop ts st3))
                   | POLL_NO_INPUT \<Rightarrow>
                       (if display_error t then Stopped st2 else wl_copy_loop ts st2)))))"

record wl_copy_env =
  wc_alloc :: "nat \<Rightarrow> bool"
  wc_stdin :: "read_res list"
  wc_connect :: "wl_globals option"
  wc_fork :: fork_res
  wc_child :: "wl_turn list"

definition wl_run_copy_clipboard :: "wl_copy_env \<Rightarrow> copy_end" where
  "wl_run_copy_clipboard e =
     (case wl_read_all_stdin (wc_alloc e) (wc_stdin e) of
        (None, copy_data_len) \<Rightarrow> CopyReturn 1
      | (Some copy_data, copy_data_len) \<Rightarrow>
          (if copy_data_len = 0 then CopyReturn 1
           else (case wc_connect e of
                   None \<Rightarrow> CopyReturn 1
                 | Some g \<Rightarrow>
                     (if \<not> has_ddm g \<or> \<not> has_seat g then CopyReturn 1
                      else (case wc_fork e of
                              ForkFailed \<Rightarrow> CopyReturn 1
                            | ForkParent \<Rightarrow> CopyParentExit 0
                            | ForkChild \<Rightarrow>
                                (case wl_copy_loop (wc_child e) (wl_start (\<lambda>p. None)) of
                                   Stopped st \<Rightarrow> CopyChildExit 0
                                 | Blocked st \<Rightarrow> CopyChildServing))))))"

subsection \<open>\<open>run_daemon\<close>\<close>

fun wl_daemon_loop :: "wl_turn list \<Rightarrow> wl_state \<Rightarrow> wl_state loop_end" where
  "wl_daemon_loop [] st = (if wl_running st then Blocked st else Stopped st)"
| "wl_daemon_loop (t # ts) st =
     (if \<not> wl_running st then Stopped st
      else (let st1 = dispatch_all (pending t) st in
            if \<not> flush_ok t then Stopped st1
            else (let st2 = (if signalled t then st1\<lparr>wl_running := False\<rparr> else st1) in
                  (case poll_result t of
                     POLL_EINTR \<Rightarrow> wl_daemon_loop ts st2
                   | POLL_FAIL \<Rightarrow> Stopped st2
                   | POLL_TIMEOUT e \<Rightarrow>
                       wl_daemon_loop ts
                         (if current_ps_offer st2 \<noteq> None \<and> ps_has_text st2
                          then fst (check_and_update_primary e st2) else st2)
                   | POLL_IN read_ok evs \<Rightarrow>
                       (if \<not> read_ok then Stopped st2
                        else (let st3 = dispatch_all evs st2 in
                              if display_error t then Stopped st3 else wl_daemon_loop ts st3))
                   | POLL_NO_INPUT \<Rightarrow>
                       (if display_error t then Stopped st2 else wl_daemon_loop ts st2)))))"

record wl_daemon_env =
  wd_connect :: "wl_globals option"
  wd_dirs :: dir_env
  wd_time_now :: "64 word"
  wd_first_io :: io_env
  wd_daemon_ok :: bool
  wd_pid_fopen_ok :: bool
  wd_pid :: nat
  wd_roundtrip :: "wl_event list"
  wd_surface :: surface_env
  wd_turns :: "wl_turn list"

definition wl_run_daemon :: "wl_daemon_env \<Rightarrow> disk \<Rightarrow> daemon_end" where
  "wl_run_daemon e dk =
     (case wd_connect e of
        None \<Rightarrow> Exited 1 dk
      | Some g \<Rightarrow>
          (if \<not> has_ps_manager g then Exited 1 dk
           else if \<not> has_seat g then Exited 1 dk
           else
             (case ensure_cache_dir (wd_dirs e) of
                None \<Rightarrow> Exited 1 dk
              | Some cache_dir \<Rightarrow>
                  (let dk0 = in_dir (named_from_cwd (wd_dirs e))
                               (write_primary (wd_first_io e) [] (wd_time_now e)) dk
                   in if \<not> wd_daemon_ok e then Exited 1 dk0
                      else
                        (let d = dir_after_chdir (wd_dirs e) cache_dir;
                             st2 = (wl_start (write_pid (wd_pid_fopen_ok e) (wd_pid e) (dk0 d)))
                                     \<lparr>is_daemon_mode := True, seq_counter := wd_time_now e\<rparr>;
                             st3 = dispatch_all (wd_roundtrip e) st2
                         in (case create_daemon_surface g (wd_surface e) st3 of (rc, st4) \<Rightarrow>
                               (if rc \<noteq> 0 then Exited 1 (dk0(d := wl_cache st4))
                                else (case wl_daemon_loop (wd_turns e) st4 of
                                        Blocked st5 \<Rightarrow> Waiting (dk0(d := wl_cache st5))
                                      | Stopped st5 \<Rightarrow>
                                          Exited 0
                                            (dk0(d := unlink_cache
                                                        (wl_cache
                                                           (wayland_disconnect st5))))))))))))"

section \<open>Concrete environments\<close>

text \<open>Inputs on which the theorems below are evaluated: an empty cache directory, an
  environment in which every call succeeds, an X server that answers with given bytes,
  a Wayland client that sends given bytes through the pipe, and runs of the daemons.\<close>

definition no_files :: files where
  "no_files p = None"

definition io_ok :: io_env where
  "io_ok = \<lparr>primary_opens = True, seq_opens = True\<rparr>"

definition seen_at_once :: "nat \<Rightarrow> bool" where
  "seen_at_once i = True"

definition owner_reply :: "bytes \<Rightarrow> x11_reply" where
  "owner_reply d =
     \<lparr>has_owner = True, notify_seen = seen_at_once, property_set = True,
      getprop_success = True, property_value = Some d, malloc_ok = True\<rparr>"

definition no_owner_reply :: x11_reply where
  "no_owner_reply =
     \<lparr>has_owner = False, notify_seen = seen_at_once, property_set = False,
      getprop_success = False, property_value = None, malloc_ok = True\<rparr>"

definition pipe_delivers :: "bytes \<Rightarrow> transfer" where
  "pipe_delivers d =
     \<lparr>pipe_ok = True, pipe_script = [PollIn (RdData d), PollIn RdEOF],
      alloc_ok = no_alloc_failure\<rparr>"

definition text_selection :: "offer \<Rightarrow> bytes \<Rightarrow> wl_event list" where
  "text_selection k d =
     [PS_DATA_OFFER k, PS_OFFER k ''text/plain;charset=utf-8'',
      PS_SELECTION (Some k) \<lparr>xfer = pipe_delivers d, wio = io_ok\<rparr>]"

definition events_turn :: "wl_event list \<Rightarrow> wl_turn" where
  "events_turn evs =
     \<lparr>pending = [], flush_ok = True, signalled = False, poll_result = POLL_IN True evs,
      display_error = False\<rparr>"

definition timeout_turn :: "bytes \<Rightarrow> wl_turn" where
  "timeout_turn d =
     \<lparr>pending = [], flush_ok = True, signalled = False,
      poll_result = POLL_TIMEOUT \<lparr>xfer = pipe_delivers d, wio = io_ok\<rparr>,
      display_error = False\<rparr>"

definition signal_turn :: wl_turn where
  "signal_turn =
     \<lparr>pending = [], flush_ok = True, signalled = True, poll_result = POLL_EINTR,
      display_error = False\<rparr>"

definition all_globals :: wl_globals where
  "all_globals =
     \<lparr>has_seat = True, has_ps_manager = True, has_ddm = True, has_compositor = True,
      has_xdg_wm_base = True, has_shm = True\<rparr>"

definition quiet_surface :: surface_env where
  "quiet_surface =
     \<lparr>shm_fd_ok = True, ftruncate_ok = True, buffer_ok = True, surface_ok = True,
      configure_events = [XDG_SURFACE_CONFIGURE], map_events = []\<rparr>"

definition no_disk :: disk where
  "no_disk d = no_files"

text \<open>An absolute cache directory, and the relative one of the command line
  \<open>zes-x11-selection-monitor cache\<close>, which names directory 5 from the working directory
  of the shell and directory 6 from \<open>/\<close>.\<close>

definition absolute_dirs :: dir_env where
  "absolute_dirs =
     \<lparr>cache_dir_arg = Some ''/run/user/1000/zes'', xdg_runtime_dir = None, home_dir = None,
      uid = 1000, stat_ok = True, mkdir_ok = True, named_from_cwd = 5, named_from_root = 6\<rparr>"

definition relative_dirs :: dir_env where
  "relative_dirs =
     \<lparr>cache_dir_arg = Some ''cache'', xdg_runtime_dir = None, home_dir = None,
      uid = 1000, stat_ok = True, mkdir_ok = True, named_from_cwd = 5, named_from_root = 6\<rparr>"

definition io_fail :: io_env where
  "io_fail = \<lparr>primary_opens = False, seq_opens = False\<rparr>"

definition wl_daemon_run :: "dir_env \<Rightarrow> 64 word \<Rightarrow> wl_turn list \<Rightarrow> wl_daemon_env" where
  "wl_daemon_run de seed turns =
     \<lparr>wd_connect = Some all_globals, wd_dirs = de, wd_time_now = seed,
      wd_first_io = io_ok, wd_daemon_ok = True, wd_pid_fopen_ok = True, wd_pid = 4242,
      wd_roundtrip = [], wd_surface = quiet_surface, wd_turns = turns\<rparr>"

definition x11_daemon_run ::
  "dir_env \<Rightarrow> 64 word \<Rightarrow> x11_reply \<Rightarrow> x11_input list \<Rightarrow> x11_daemon_env" where
  "x11_daemon_run de seed r0 ins =
     \<lparr>dirs = de, xfixes_ok = True, time_now = seed, first_io = io_ok,
      daemon_ok = True, pid_fopen_ok = True, pid = 4242, startup_reply = r0,
      startup_io = io_ok, inputs = ins\<rparr>"

text \<open>The run \<open>zes-x11-selection-monitor cache\<close> (and the same for the Wayland monitor)
  of a user whose working directory is not \<open>/\<close> and for whom \<open>/cache\<close> does not
  exist: the first publish succeeds, every \<open>open\<close> after \<open>daemon(0, 0)\<close> fails; one
  selection event arrives, then \<open>SIGTERM\<close>.\<close>

definition x11_relative_run :: x11_daemon_env where
  "x11_relative_run =
     \<lparr>dirs = relative_dirs, xfixes_ok = True, time_now = 1000, first_io = io_ok,
      daemon_ok = True, pid_fopen_ok = False, pid = 4242, startup_reply = no_owner_reply,
      startup_io = io_fail,
      inputs = [XFixesSelectionNotify PRIMARY (owner_reply ''hello'') io_fail, Signal,
                OtherEvent]\<rparr>"

definition wl_relative_run :: wl_daemon_env where
  "wl_relative_run =
     \<lparr>wd_connect = Some all_globals, wd_dirs = relative_dirs, wd_time_now = 1000,
      wd_first_io = io_ok, wd_daemon_ok = True, wd_pid_fopen_ok = False, wd_pid = 4242,
      wd_roundtrip = [], wd_surface = quiet_surface,
      wd_turns = [\<lparr>pending = [], flush_ok = True, signalled = False,
                   poll_result = POLL_IN True
                     [PS_DATA_OFFER 3, PS_OFFER 3 ''text/plain;charset=utf-8'',
                      PS_SELECTION (Some 3) \<lparr>xfer = pipe_delivers ''hello'', wio = io_fail\<rparr>],
                   display_error = False\<rparr>,
                  signal_turn]\<rparr>"

definition tracking :: "offer \<Rightarrow> offer \<Rightarrow> wl_state" where
  "tracking a b =
     (wl_start no_files)\<lparr>current_ps_offer := Some a, current_clipboard_offer := Some b\<rparr>"

section \<open>Notions used to state the properties\<close>

text \<open>The payload that a caller uses from a pair \<open>(data, len)\<close>
  (\<open>sel ? sel : ""\<close>, \<open>sel ? len : 0\<close>); the bytes that a script of \<open>read\<close> results
  delivers on standard input or through a pipe before it ends; the read loop of
  \<open>read_all_stdin\<close> on the sizes of the reads alone.\<close>

definition payload_of :: "bytes option \<times> nat \<Rightarrow> bytes" where
  "payload_of r = (case r of (None, len) \<Rightarrow> [] | (Some d, len) \<Rightarrow> take len d)"

fun stdin_bytes :: "read_res list \<Rightarrow> bytes" where
  "stdin_bytes [] = []"
| "stdin_bytes (RdData d # rs) = (if take 4096 d = [] then [] else take 4096 d @ stdin_bytes rs)"
| "stdin_bytes (r # rs) = []"

fun pipe_bytes :: "poll_res list \<Rightarrow> bytes" where
  "pipe_bytes [] = []"
| "pipe_bytes (PollIn (RdData d) # ps) =
     (if take 4096 d = [] then [] else take 4096 d @ pipe_bytes ps)"
| "pipe_bytes (PollIn RdAgain # ps) = pipe_bytes ps"
| "pipe_bytes (PollOther # ps) = pipe_bytes ps"
| "pipe_bytes (p # ps) = []"

fun stdin_sizes :: "(nat \<Rightarrow> bool) \<Rightarrow> nat \<Rightarrow> nat list \<Rightarrow> nat \<Rightarrow> nat \<Rightarrow> nat option" where
  "stdin_sizes alloc cap ns tot capacity =
     (case stdin_grow alloc cap tot capacity of
        None \<Rightarrow> Some tot
      | Some None \<Rightarrow> None
      | Some (Some capacity') \<Rightarrow>
          (case ns of
             [] \<Rightarrow> Some tot
           | n # ns' \<Rightarrow> (if min 4096 n = 0 then Some tot
                         else stdin_sizes alloc cap ns' (tot + min 4096 n) capacity')))"

fun read_size :: "read_res \<Rightarrow> nat" where
  "read_size (RdData d) = length d"
| "read_size r = 0"

declare x11_stdin_loop.simps [simp del] wl_stdin_loop.simps [simp del] stdin_sizes.simps [simp del]

definition x11_copy_run :: "read_res list \<Rightarrow> x11_copy_env" where
  "x11_copy_run rs =
     \<lparr>copy_alloc = no_alloc_failure, copy_stdin = rs, owner_granted = True,
      fork_result = ForkParent, child_script = []\<rparr>"

definition wl_copy_run :: "read_res list \<Rightarrow> wl_copy_env" where
  "wl_copy_run rs =
     \<lparr>wc_alloc = no_alloc_failure, wc_stdin = rs, wc_connect = Some all_globals,
      wc_fork = ForkParent, wc_child = []\<rparr>"

definition oneshot_after_clear :: oneshot_env where
  "oneshot_after_clear =
     \<lparr>os_connect = Some all_globals,
      os_roundtrip = [PS_SELECTION None \<lparr>xfer = pipe_delivers [], wio = io_ok\<rparr>],
      os_surface = quiet_surface, os_roundtrip2 = [], os_attempts = [],
      os_cache_dir_arg = None, os_cache_dir_ok = False,
      os_read = \<lparr>xfer = pipe_delivers [], wio = io_ok\<rparr>\<rparr>"

definition oneshot_selected :: "bytes \<Rightarrow> oneshot_env" where
  "oneshot_selected d =
     \<lparr>os_connect = Some all_globals, os_roundtrip = text_selection 3 d,
      os_surface = quiet_surface, os_roundtrip2 = [], os_attempts = [],
      os_cache_dir_arg = None, os_cache_dir_ok = False,
      os_read = \<lparr>xfer = pipe_delivers d, wio = io_ok\<rparr>\<rparr>"

definition after_abc :: wl_state where
  "after_abc =
     (wl_start (no_files(PRIMARY_FILE \<mapsto> ''abc'', SEQ_FILE \<mapsto> seq_line 1002)))
       \<lparr>is_daemon_mode := True, seq_counter := 1002, ps_has_text := True,
        current_ps_offer := Some 3, last_known_content := Some ''abc'',
        last_known_len := 3\<rparr>"

definition abc_again :: wl_env where
  "abc_again = \<lparr>xfer = pipe_delivers ''abc'', wio = io_ok\<rparr>"

definition long_stdin :: "read_res list" where
  "long_stdin = replicate 1025 (RdData (replicate 4096 CHR ''a''))"

definition long_transfer :: transfer where
  "long_transfer =
     \<lparr>pipe_ok = True, pipe_script = replicate 1025 (PollIn (RdData (replicate 4096 CHR ''a''))),
      alloc_ok = no_alloc_failure\<rparr>"

definition xyz_now :: wl_env where
  "xyz_now = \<lparr>xfer = pipe_delivers ''xyz'', wio = io_ok\<rparr>"

section \<open>Properties of the publish operation\<close>

lemma run_ops_append: "run_ops (xs @ ys) fs = run_ops ys (run_ops xs fs)"
  by (induction xs arbitrary: fs) auto

lemma write_primary_files:
  "write_primary io d s fs =
     (if \<not> primary_opens io then fs
      else if seq_opens io then fs(PRIMARY_FILE \<mapsto> d, SEQ_FILE \<mapsto> seq_line s)
      else fs(PRIMARY_FILE \<mapsto> d))"
  by (auto simp: write_primary_def write_primary_ops_def fun_eq_iff)

lemma seq_line_1000: "seq_line 1000 = ''1000'' @ [CHR 0x0A]"
  by (simp add: seq_line_def decimal.simps digit_char_def)

text \<open>
  Claim C10. If opening the primary file fails, a publish attempt changes neither file:
  the only call made is the failed \<open>open\<close>, so no call touches the seq file and the
  files are what they were.
\<close>

theorem publish_noop_when_primary_open_fails:
  assumes "\<not> primary_opens io"
  shows "write_primary io d s fs = fs
         \<and> write_primary_ops io d s = [OpenFailed PRIMARY_FILE]
         \<and> (\<forall>x \<in> set (write_primary_ops io d s). op_path x \<noteq> SEQ_FILE)"
  using assms by (simp add: write_primary_def write_primary_ops_def)

theorem publish_noop_when_primary_open_fails_witness:
  "write_primary \<lparr>primary_opens = False, seq_opens = True\<rparr> ''abc'' 7
       (no_files(PRIMARY_FILE \<mapsto> ''old'', SEQ_FILE \<mapsto> ''6''))
     = no_files(PRIMARY_FILE \<mapsto> ''old'', SEQ_FILE \<mapsto> ''6'')
   \<and> write_primary_ops \<lparr>primary_opens = False, seq_opens = True\<rparr> ''abc'' 7
     = [OpenFailed PRIMARY_FILE]"
  using publish_noop_when_primary_open_fails
    [of "\<lparr>primary_opens = False, seq_opens = True\<rparr>" "''abc''" 7
        "no_files(PRIMARY_FILE \<mapsto> ''old'', SEQ_FILE \<mapsto> ''6'')"]
  by simp

text \<open>
  Claim C2. In every publish the primary file is opened, written with the payload and
  closed before any call on the seq file: at every point of the call sequence of
  \<open>write_primary\<close> at which the seq file has been touched, the primary file has
  already been closed and holds the whole payload. At the end the primary file holds the
  payload and, when the seq file opens, the seq file holds the decimal counter followed
  by a newline.
\<close>

theorem publish_primary_before_seq:
  assumes "prefix tr (write_primary_ops io d s)" and "\<exists>x \<in> set tr. op_path x = SEQ_FILE"
  shows "CloseFile PRIMARY_FILE \<in> set tr \<and> run_ops tr fs PRIMARY_FILE = Some d
         \<and> write_primary io d s fs PRIMARY_FILE = Some d
         \<and> (seq_opens io \<longrightarrow> write_primary io d s fs SEQ_FILE = Some (seq_line s))"
  using assms
  by (auto simp: write_primary_files write_primary_ops_def prefix_Cons split: if_splits)

theorem publish_primary_before_seq_witness:
  "prefix [OpenTrunc PRIMARY_FILE, WriteBytes PRIMARY_FILE ''hello'', CloseFile PRIMARY_FILE,
           OpenTrunc SEQ_FILE]
          (write_primary_ops io_ok ''hello'' 1000)
   \<and> run_ops [OpenTrunc PRIMARY_FILE, WriteBytes PRIMARY_FILE ''hello'',
               CloseFile PRIMARY_FILE, OpenTrunc SEQ_FILE] no_files PRIMARY_FILE
       = Some ''hello''
   \<and> write_primary io_ok ''hello'' 1000 no_files PRIMARY_FILE = Some ''hello''
   \<and> write_primary io_ok ''hello'' 1000 no_files SEQ_FILE = Some (''1000'' @ [CHR 0x0A])"
proof -
  have p: "prefix [OpenTrunc PRIMARY_FILE, WriteBytes PRIMARY_FILE ''hello'',
                   CloseFile PRIMARY_FILE, OpenTrunc SEQ_FILE]
                  (write_primary_ops io_ok ''hello'' 1000)"
    by (simp add: write_primary_ops_def io_ok_def)
  have q: "\<exists>x \<in> set [OpenTrunc PRIMARY_FILE, WriteBytes PRIMARY_FILE ''hello'',
                       CloseFile PRIMARY_FILE, OpenTrunc SEQ_FILE]. op_path x = SEQ_FILE"
    by simp
  have "seq_opens io_ok" by (simp add: io_ok_def)
  with publish_primary_before_seq [OF p q, of no_files] p show ?thesis
    by (simp add: seq_line_1000)
qed

section \<open>Offer bookkeeping of the Wayland listeners\<close>

lemma ps_release_current [simp]:
  "current_ps_offer (ps_release_previous offer st) = current_ps_offer st"
  by (simp add: ps_release_previous_def split: option.splits)

lemma dd_release_current [simp]:
  "current_clipboard_offer (dd_release_previous offer st) = current_clipboard_offer st"
  by (simp add: dd_release_previous_def split: option.splits)

lemma bump_fields [simp]:
  "current_ps_offer (bump_and_write io sel len st) = current_ps_offer st"
  "ps_destroyed (bump_and_write io sel len st) = ps_destroyed st"
  "seq_counter (bump_and_write io sel len st) = seq_counter st + 1"
  "last_known_content (bump_and_write io sel len st) = last_known_content st"
  "last_known_len (bump_and_write io sel len st) = last_known_len st"
  by (simp_all add: bump_and_write_def Let_def)

lemma remember_fields [simp]:
  "current_ps_offer (remember a sel len st) = current_ps_offer st"
  "ps_destroyed (remember a sel len st) = ps_destroyed st"
  "seq_counter (remember a sel len st) = seq_counter st"
  "wl_cache (remember a sel len st) = wl_cache st"
  by (simp_all add: remember_def)

lemma ps_selection_offer:
  "current_ps_offer (ps_device_handle_selection offer e st) = offer"
  by (simp add: ps_device_handle_selection_def Let_def split: prod.splits)

lemma ps_selection_destroyed:
  "ps_destroyed (ps_device_handle_selection offer e st)
   = ps_destroyed (ps_release_previous offer st)"
  by (simp add: ps_device_handle_selection_def Let_def split: prod.splits)

text \<open>
  Claim C8. Each device has one variable for its current offer, so at most one offer is
  tracked per device. On a selection event the first statement of the handler issues the
  destroy request for the tracked offer when there is one and it differs from the offer
  delivered, while that offer is still the current one; only then does the delivered
  offer become current, and the handler destroys nothing else. This holds for the
  primary-selection device and for the data device.
\<close>

theorem offer_released_then_replaced:
  "current_ps_offer (ps_release_previous offer st) = current_ps_offer st
   \<and> ps_destroyed (ps_release_previous offer st)
       = ps_destroyed st @ (case current_ps_offer st of
                              None \<Rightarrow> []
                            | Some cur \<Rightarrow> if Some cur = offer then [] else [cur])
   \<and> current_ps_offer (ps_device_handle_selection offer e st) = offer
   \<and> ps_destroyed (ps_device_handle_selection offer e st)
       = ps_destroyed (ps_release_previous offer st)
   \<and> current_clipboard_offer (dd_release_previous offer st) = current_clipboard_offer st
   \<and> clip_destroyed (dd_release_previous offer st)
       = clip_destroyed st @ (case current_clipboard_offer st of
                                None \<Rightarrow> []
                              | Some cur \<Rightarrow> if Some cur = offer then [] else [cur])
   \<and> current_clipboard_offer (dd_handle_selection offer st) = offer
   \<and> clip_destroyed (dd_handle_selection offer st)
       = clip_destroyed (dd_release_previous offer st)"
  by (simp add: ps_selection_offer ps_selection_destroyed dd_handle_selection_def Let_def)
     (simp add: ps_release_previous_def dd_release_previous_def split: option.splits)

theorem offer_released_then_replaced_witness:
  "ps_destroyed (ps_device_handle_selection (Some 2) \<lparr>xfer = pipe_delivers ''x'', wio = io_ok\<rparr>
                   (tracking 1 7)) = [1]
   \<and> current_ps_offer (ps_device_handle_selection (Some 2)
                          \<lparr>xfer = pipe_delivers ''x'', wio = io_ok\<rparr> (tracking 1 7)) = Some 2
   \<and> clip_destroyed (dd_handle_selection (Some 8) (tracking 1 7)) = [7]
   \<and> current_clipboard_offer (dd_handle_selection (Some 8) (tracking 1 7)) = Some 8"
  using offer_released_then_replaced
    [of "Some 2" "tracking 1 7" "\<lparr>xfer = pipe_delivers ''x'', wio = io_ok\<rparr>"]
    offer_released_then_replaced
    [of "Some 8" "tracking 1 7" "\<lparr>xfer = pipe_delivers ''x'', wio = io_ok\<rparr>"]
  by (simp add: tracking_def wl_start_def)

section \<open>Shutdown of the daemons\<close>

lemma unlink_cache_none:
  "unlink_cache fs PRIMARY_FILE = None \<and> unlink_cache fs SEQ_FILE = None
   \<and> unlink_cache fs PID_FILE = None"
  by (simp add: unlink_cache_def)

lemma no_disk_apply [simp]: "no_disk d = no_files"
  by (simp add: no_disk_def)

lemma unlink_no_files [simp]: "unlink_cache no_files = no_files"
proof
  fix p show "unlink_cache no_files p = no_files p"
    by (cases p) (simp_all add: unlink_cache_def no_files_def)
qed

lemma unlink_cache_files:
  "unlink_cache fs = fs(PRIMARY_FILE := None, SEQ_FILE := None, PID_FILE := None)"
  by (simp add: unlink_cache_def)

lemma x11_exit0:
  "x11_run_daemon e dk = Exited 0 dk' \<Longrightarrow>
   \<exists>cd g. ensure_cache_dir (dirs e) = Some cd
     \<and> dk' = (in_dir (named_from_cwd (dirs e))
                (write_primary (first_io e) [] (time_now e)) dk)
               (dir_after_chdir (dirs e) cd := unlink_cache g)"
  by (auto simp: x11_run_daemon_def Let_def split: if_splits loop_end.splits option.splits)

lemma wl_exit0:
  "wl_run_daemon e dk = Exited 0 dk' \<Longrightarrow>
   \<exists>cd g. ensure_cache_dir (wd_dirs e) = Some cd
     \<and> dk' = (in_dir (named_from_cwd (wd_dirs e))
                (write_primary (wd_first_io e) [] (wd_time_now e)) dk)
               (dir_after_chdir (wd_dirs e) cd := unlink_cache g)"
  by (auto simp: wl_run_daemon_def Let_def
           split: if_splits loop_end.splits option.splits prod.splits)

lemma shutdown_disk:
  assumes "dk' = (in_dir c (write_primary io [] seed) dk)(d := unlink_cache g)"
  shows "dk' d PRIMARY_FILE = None \<and> dk' d SEQ_FILE = None \<and> dk' d PID_FILE = None
         \<and> (d \<noteq> c \<and> primary_opens io \<and> seq_opens io \<longrightarrow>
              dk' c PRIMARY_FILE = Some [] \<and> dk' c SEQ_FILE = Some (seq_line seed))"
  using assms by (simp add: unlink_cache_none in_dir_def write_primary_files)

lemma x11_loop_stops: "x11_daemon_loop ins st = Stopped st' \<Longrightarrow> \<not> x11_running st'"
  by (induction ins st rule: x11_daemon_loop.induct) (auto simp: Let_def split: if_splits)

lemma absolute_cache_dir:
  "ensure_cache_dir absolute_dirs = Some ''/run/user/1000/zes''
   \<and> dir_after_chdir absolute_dirs ''/run/user/1000/zes'' = 5
   \<and> named_from_cwd absolute_dirs = 5"
  by (simp add: ensure_cache_dir_def cache_dir_name_def absolute_dirs_def dir_after_chdir_def
      is_absolute_def)

lemma relative_cache_dir:
  "ensure_cache_dir relative_dirs = Some ''cache''
   \<and> dir_after_chdir relative_dirs ''cache'' = 6
   \<and> named_from_cwd relative_dirs = 5"
  by (simp add: ensure_cache_dir_def cache_dir_name_def relative_dirs_def dir_after_chdir_def
      is_absolute_def)

lemma x11_sigterm_run:
  "x11_run_daemon (x11_daemon_run absolute_dirs 1000 no_owner_reply
      [XFixesSelectionNotify PRIMARY (owner_reply ''hello'') io_ok, Signal, OtherEvent])
     no_disk
   = Exited 0 no_disk"
  by (simp add: x11_run_daemon_def x11_daemon_run_def Let_def absolute_cache_dir in_dir_def
      x11_check_and_update_primary_def get_primary_selection_def no_owner_reply_def
      owner_reply_def wait_notify.simps seen_at_once_def XGetWindowProperty_def
      MAX_SELECTION_SIZE_def write_primary_files io_ok_def write_pid_def unlink_cache_files)
     (auto simp: fun_eq_iff no_files_def)

lemma x11_relative_exit:
  "x11_run_daemon x11_relative_run no_disk
   = Exited 0 (no_disk(5 := no_files(PRIMARY_FILE \<mapsto> [], SEQ_FILE \<mapsto> seq_line 1000)))"
  by (simp add: x11_run_daemon_def x11_relative_run_def Let_def relative_cache_dir in_dir_def
      x11_check_and_update_primary_def get_primary_selection_def no_owner_reply_def
      owner_reply_def wait_notify.simps seen_at_once_def XGetWindowProperty_def
      MAX_SELECTION_SIZE_def write_primary_files io_ok_def io_fail_def write_pid_def)
     (auto simp: fun_eq_iff)

lemma wl_sigterm_run:
  "wl_run_daemon (wl_daemon_run absolute_dirs 1000
      [events_turn (text_selection 3 ''hello''), signal_turn]) no_disk
   = Exited 0 no_disk"
  by (simp add: wl_run_daemon_def wl_daemon_run_def Let_def all_globals_def absolute_cache_dir
      in_dir_def
      create_daemon_surface_def quiet_surface_def wl_start_def write_primary_files io_ok_def
      write_pid_def xdg_surface_handle_configure_def events_turn_def text_selection_def
      signal_turn_def ps_device_handle_data_offer_def ps_offer_handle_offer_def
      ps_device_handle_selection_def ps_release_previous_def read_ps_offer_def
      pipe_delivers_def read_fd_with_timeout_def fd_grow_def MAX_SELECTION_SIZE_def
      no_alloc_failure_def buf_bytes_def content_changed_def bump_and_write_def remember_def
      wayland_disconnect_def unlink_cache_files)
     (auto simp: fun_eq_iff no_files_def)

lemma wl_relative_exit:
  "wl_run_daemon wl_relative_run no_disk
   = Exited 0 (no_disk(5 := no_files(PRIMARY_FILE \<mapsto> [], SEQ_FILE \<mapsto> seq_line 1000)))"
  by (simp add: wl_run_daemon_def wl_relative_run_def Let_def all_globals_def
      relative_cache_dir in_dir_def
      create_daemon_surface_def quiet_surface_def wl_start_def write_primary_files io_ok_def
      io_fail_def
      write_pid_def xdg_surface_handle_configure_def
      signal_turn_def ps_device_handle_data_offer_def ps_offer_handle_offer_def
      ps_device_handle_selection_def ps_release_previous_def read_ps_offer_def
      pipe_delivers_def read_fd_with_timeout_def fd_grow_def MAX_SELECTION_SIZE_def
      no_alloc_failure_def buf_bytes_def content_changed_def bump_and_write_def remember_def
      wayland_disconnect_def)
     (auto simp: fun_eq_iff)

text \<open>
  Claim C9. The three \<open>unlink\<close> calls that follow the event loop act in the directory
  that \<open>cache_dir\<close> names after \<open>daemon(0, 0)\<close> has changed the working directory to
  \<open>/\<close>. When a daemon exits with status 0 (the clean shutdown), none of \<open>primary\<close>,
  \<open>seq\<close> and \<open>monitor.pid\<close> exists in that directory. It is the cache directory
  when \<open>cache_dir\<close> is an absolute name. When \<open>cache_dir\<close> is a relative name that
  names another directory from \<open>/\<close> than from the starting directory, the cache
  directory in which the first publish was made before \<open>daemon(0, 0)\<close> still holds the
  files \<open>primary\<close> (empty) and \<open>seq\<close> (the seed) after the clean shutdown: the property
  claimed fails there.
\<close>

theorem clean_shutdown_unlinks_after_chdir:
  assumes "x11_run_daemon e dk = Exited 0 dk' \<and> de = dirs e \<and> io = first_io e
             \<and> seed = time_now e
           \<or> wl_run_daemon w dk = Exited 0 dk' \<and> de = wd_dirs w \<and> io = wd_first_io w
             \<and> seed = wd_time_now w"
  shows "\<exists>cache_dir. ensure_cache_dir de = Some cache_dir
           \<and> dk' (dir_after_chdir de cache_dir) PRIMARY_FILE = None
           \<and> dk' (dir_after_chdir de cache_dir) SEQ_FILE = None
           \<and> dk' (dir_after_chdir de cache_dir) PID_FILE = None
           \<and> (dir_after_chdir de cache_dir \<noteq> named_from_cwd de
                \<and> primary_opens io \<and> seq_opens io \<longrightarrow>
                dk' (named_from_cwd de) PRIMARY_FILE = Some []
                \<and> dk' (named_from_cwd de) SEQ_FILE = Some (seq_line seed))"
  using assms
proof
  assume a: "x11_run_daemon e dk = Exited 0 dk' \<and> de = dirs e \<and> io = first_io e
             \<and> seed = time_now e"
  then obtain cd g where "ensure_cache_dir de = Some cd"
    and "dk' = (in_dir (named_from_cwd de) (write_primary io [] seed) dk)
                 (dir_after_chdir de cd := unlink_cache g)"
    using x11_exit0 [of e dk dk'] by auto
  then show ?thesis using shutdown_disk by blast
next
  assume a: "wl_run_daemon w dk = Exited 0 dk' \<and> de = wd_dirs w \<and> io = wd_first_io w
             \<and> seed = wd_time_now w"
  then obtain cd g where "ensure_cache_dir de = Some cd"
    and "dk' = (in_dir (named_from_cwd de) (write_primary io [] seed) dk)
                 (dir_after_chdir de cd := unlink_cache g)"
    using wl_exit0 [of w dk dk'] by auto
  then show ?thesis using shutdown_disk by blast
qed

theorem clean_shutdown_unlinks_after_chdir_witness:
  "(case x11_run_daemon (x11_daemon_run absolute_dirs 1000 no_owner_reply
           [XFixesSelectionNotify PRIMARY (owner_reply ''hello'') io_ok, Signal, OtherEvent])
          no_disk of
      Exited rc dk \<Rightarrow>
        rc = 0 \<and> dk 5 PRIMARY_FILE = None \<and> dk 5 SEQ_FILE = None \<and> dk 5 PID_FILE = None
    | Waiting dk \<Rightarrow> False)
   \<and> (case wl_run_daemon (wl_daemon_run absolute_dirs 1000
              [events_turn (text_selection 3 ''hello''), signal_turn]) no_disk of
      Exited rc dk \<Rightarrow>
        rc = 0 \<and> dk 5 PRIMARY_FILE = None \<and> dk 5 SEQ_FILE = None \<and> dk 5 PID_FILE = None
    | Waiting dk \<Rightarrow> False)
   \<and> (case x11_run_daemon x11_relative_run no_disk of
      Exited rc dk \<Rightarrow>
        rc = 0 \<and> dk 6 PRIMARY_FILE = None \<and> dk 6 SEQ_FILE = None \<and> dk 6 PID_FILE = None
        \<and> dk 5 PRIMARY_FILE = Some [] \<and> dk 5 SEQ_FILE = Some (''1000'' @ [CHR 0x0A])
    | Waiting dk \<Rightarrow> False)
   \<and> (case wl_run_daemon wl_relative_run no_disk of
      Exited rc dk \<Rightarrow>
        rc = 0 \<and> dk 6 PRIMARY_FILE = None \<and> dk 6 SEQ_FILE = None \<and> dk 6 PID_FILE = None
        \<and> dk 5 PRIMARY_FILE = Some [] \<and> dk 5 SEQ_FILE = Some (''1000'' @ [CHR 0x0A])
    | Waiting dk \<Rightarrow> False)"
  using clean_shutdown_unlinks_after_chdir
          [OF disjI1 [OF conjI [OF x11_sigterm_run conjI [OF refl conjI [OF refl refl]]]]]
        clean_shutdown_unlinks_after_chdir
          [OF disjI2 [OF conjI [OF wl_sigterm_run conjI [OF refl conjI [OF refl refl]]]]]
        clean_shutdown_unlinks_after_chdir
          [OF disjI1 [OF conjI [OF x11_relative_exit conjI [OF refl conjI [OF refl refl]]]]]
        clean_shutdown_unlinks_after_chdir
          [OF disjI2 [OF conjI [OF wl_relative_exit conjI [OF refl conjI [OF refl refl]]]]]
  by (simp add: x11_sigterm_run wl_sigterm_run x11_relative_exit wl_relative_exit
      seq_line_1000 no_files_def)

text \<open>The run \<open>zes-x11-selection-monitor cache\<close> (and the same for
  \<open>zes-wl-selection-monitor\<close>) started in a directory other than \<open>/\<close>, stopped by
  \<open>SIGTERM\<close>: the daemon exits with status 0 and the files \<open>primary\<close> and \<open>seq\<close>
  exist in the cache directory.\<close>

theorem clean_shutdown_leaves_published_files:
  "(case x11_run_daemon x11_relative_run no_disk of
      Exited rc dk \<Rightarrow>
        rc = 0 \<and> dk (named_from_cwd relative_dirs) PRIMARY_FILE \<noteq> None
        \<and> dk (named_from_cwd relative_dirs) SEQ_FILE \<noteq> None
    | Waiting dk \<Rightarrow> False)
   \<and> (case wl_run_daemon wl_relative_run no_disk of
      Exited rc dk \<Rightarrow>
        rc = 0 \<and> dk (named_from_cwd relative_dirs) PRIMARY_FILE \<noteq> None
        \<and> dk (named_from_cwd relative_dirs) SEQ_FILE \<noteq> None
    | Waiting dk \<Rightarrow> False)"
  by (simp add: x11_relative_exit wl_relative_exit relative_cache_dir)

section \<open>The serving child of the X11 \<open>run_copy_clipboard\<close>\<close>






lemma first_request_served:
  "serve_pending [SelectionRequest] child_start
   = \<lparr>child_running = True, timeout_count = 0, selection_served = True, requests_served = 1\<rparr>"
  by (simp add: child_start_def)





section \<open>Bounds of the read loops\<close>

lemma x11_sizes:
  "map_option snd (x11_stdin_loop alloc rs buf tot capacity)
   = stdin_sizes alloc MAX_SELECTION_SIZE (map read_size rs) tot capacity"
  apply (induction alloc rs buf tot capacity rule: x11_stdin_loop.induct)
  apply (subst x11_stdin_loop.simps)
  apply (subst stdin_sizes.simps)
  apply (auto split: option.splits list.splits read_res.splits simp: min_def simp del: x11_stdin_loop.simps stdin_sizes.simps)
  done

lemma replicate_step: "0 < n \<Longrightarrow> replicate n x = x # replicate (n - 1) x"
  by (cases n) auto

lemma fd_loop_bound:
  "(capacity = 0 \<and> tot = 0) \<or> (4096 \<le> capacity \<and> tot \<le> capacity \<and> capacity \<le> max_size) \<Longrightarrow>
   snd (read_fd_loop alloc max_size ps buf tot capacity) \<le> max_size"
proof (induction alloc max_size ps buf tot capacity rule: read_fd_loop.induct)
  case (5 alloc max_size r ps buf tot capacity)
  show ?case
  proof (cases "fd_grow alloc max_size buf tot capacity")
    case None
    with "5.prems" show ?thesis by auto
  next
    case (Some bc)
    obtain buf' c' where bc: "bc = (buf', c')" by (cases bc)
    from Some bc "5.prems" have inv: "4096 \<le> c'" "tot + 4096 \<le> c'" "c' \<le> max_size"
      by (auto simp: fd_grow_def Let_def split: if_splits)
    show ?thesis
    proof (cases r)
      case (RdData d)
      show ?thesis
      proof (cases "take 4096 d = []")
        case True
        with Some bc RdData inv show ?thesis by simp
      next
        case False
        have "length (take 4096 d) \<le> 4096" by simp
        with inv have "4096 \<le> c' \<and> tot + length (take 4096 d) \<le> c' \<and> c' \<le> max_size"
          by linarith
        then have "snd (read_fd_loop alloc max_size ps (Some (buf_bytes buf' @ take 4096 d))
                     (tot + length (take 4096 d)) c') \<le> max_size"
          using "5.IH"(1) [OF Some bc [symmetric] RdData False] by blast
        with Some bc RdData False show ?thesis by simp
      qed
    next
      case RdAgain
      from inv have "4096 \<le> c' \<and> tot \<le> c' \<and> c' \<le> max_size" by linarith
      then have "snd (read_fd_loop alloc max_size ps buf' tot c') \<le> max_size"
        using "5.IH"(2) [OF Some bc [symmetric] RdAgain] by blast
      with Some bc RdAgain show ?thesis by simp
    qed (use Some bc inv in auto)
  qed
qed auto


lemma fd_grow_bytes:
  "fd_grow alloc max_size buf tot capacity = Some (buf', c') \<Longrightarrow> buf_bytes buf' = buf_bytes buf"
  by (auto simp: fd_grow_def Let_def buf_bytes_def split: if_splits)

lemma fd_loop_length:
  "length (buf_bytes buf) = tot \<Longrightarrow>
   length (buf_bytes (fst (read_fd_loop alloc max_size ps buf tot capacity)))
   = snd (read_fd_loop alloc max_size ps buf tot capacity)"
proof (induction alloc max_size ps buf tot capacity rule: read_fd_loop.induct)
  case (5 alloc max_size r ps buf tot capacity)
  show ?case
  proof (cases "fd_grow alloc max_size buf tot capacity")
    case None
    with "5.prems" show ?thesis by simp
  next
    case (Some bc)
    obtain buf' c' where bc: "bc = (buf', c')" by (cases bc)
    note same = fd_grow_bytes [OF Some [unfolded bc]]
    show ?thesis
    proof (cases r)
      case (RdData d)
      show ?thesis
      proof (cases "take 4096 d = []")
        case True
        with Some bc RdData same "5.prems" show ?thesis by simp
      next
        case False
        have "length (buf_bytes (Some (buf_bytes buf' @ take 4096 d))) = tot + length (take 4096 d)"
          using same "5.prems" by (simp add: buf_bytes_def)
        from "5.IH"(1) [OF Some bc [symmetric] RdData False this] Some bc RdData False
        show ?thesis by simp
      qed
    next
      case RdAgain
      from "5.IH"(2) [OF Some bc [symmetric] RdAgain] Some bc RdAgain same "5.prems"
      show ?thesis by simp
    qed (use Some bc same "5.prems" in auto)
  qed
qed auto

lemma fd_loop_prefix:
  "\<exists>zs. buf_bytes (fst (read_fd_loop alloc max_size ps buf tot capacity)) = buf_bytes buf @ zs
        \<and> prefix zs (pipe_bytes ps)"
proof (induction alloc max_size ps buf tot capacity rule: read_fd_loop.induct)
  case (5 alloc max_size r ps buf tot capacity)
  show ?case
  proof (cases "fd_grow alloc max_size buf tot capacity")
    case None
    then show ?thesis by simp
  next
    case (Some bc)
    obtain buf' c' where bc: "bc = (buf', c')" by (cases bc)
    from Some bc have same: "buf_bytes buf' = buf_bytes buf"
      by (auto simp: fd_grow_def Let_def buf_bytes_def split: if_splits)
    show ?thesis
    proof (cases r)
      case (RdData d)
      show ?thesis
      proof (cases "take 4096 d = []")
        case True
        with Some bc RdData same show ?thesis by simp
      next
        case False
        from "5.IH"(1) [OF Some bc [symmetric] RdData False]
        obtain zs where
          "buf_bytes (fst (read_fd_loop alloc max_size ps (Some (buf_bytes buf' @ take 4096 d))
              (tot + length (take 4096 d)) c')) = buf_bytes (Some (buf_bytes buf' @ take 4096 d)) @ zs"
          "prefix zs (pipe_bytes ps)" by blast
        with Some bc RdData False same show ?thesis by (simp add: buf_bytes_def)
      qed
    next
      case RdAgain
      from "5.IH"(2) [OF Some bc [symmetric] RdAgain] Some bc RdAgain same
      show ?thesis by simp
    qed (use Some bc same in auto)
  qed
qed auto


lemma stdin_grow_inv:
  "stdin_grow alloc cap tot capacity = Some (Some c') \<Longrightarrow> 4096 \<le> capacity \<Longrightarrow>
   tot \<le> capacity \<Longrightarrow> capacity \<le> cap \<Longrightarrow> 4096 \<le> c' \<and> tot + 4096 \<le> c' \<and> c' \<le> cap"
  by (auto simp: stdin_grow_def split: if_splits)


lemma wl_stdin_result:
  "4096 \<le> capacity \<Longrightarrow> tot \<le> capacity \<Longrightarrow> capacity \<le> MAX_CLIPBOARD_SIZE \<Longrightarrow>
   length buf = tot \<Longrightarrow> wl_stdin_loop alloc rs buf tot capacity = (b, t) \<Longrightarrow>
   t \<le> MAX_CLIPBOARD_SIZE \<and> length b = t \<and> tot \<le> t
   \<and> (\<exists>zs. b = buf @ zs \<and> prefix zs (stdin_bytes rs))"
proof (induction alloc rs buf tot capacity arbitrary: b t rule: wl_stdin_loop.induct)
  case (1 alloc rs buf tot capacity)
  note inv0 = "1.prems"(1,2,3)
  have stop: ?case if "wl_stdin_loop alloc rs buf tot capacity = (buf, tot)"
    using that "1.prems" by auto
  have step: ?case
    if g: "stdin_grow alloc MAX_CLIPBOARD_SIZE tot capacity = Some (Some c')"
      and rs: "rs = RdData d # rs'" and d: "take 4096 d \<noteq> []" for c' d rs'
  proof -
    note inv = stdin_grow_inv [OF g inv0]
    have "length (take 4096 d) \<le> 4096" by simp
    with inv have le: "tot + length (take 4096 d) \<le> c'" by linarith
    have eq: "wl_stdin_loop alloc rs' (buf @ take 4096 d) (tot + length (take 4096 d)) c' = (b, t)"
      using "1.prems"(5) g rs d by (subst (asm) wl_stdin_loop.simps) simp
    have len: "length (buf @ take 4096 d) = tot + length (take 4096 d)"
      using "1.prems"(4) by simp
    from "1.IH" [OF g refl rs refl d _ le _ len eq] inv
    obtain zs where "t \<le> MAX_CLIPBOARD_SIZE" "length b = t" "tot + length (take 4096 d) \<le> t"
      "b = (buf @ take 4096 d) @ zs" "prefix zs (stdin_bytes rs')" by blast
    with rs d show ?thesis by auto
  qed
  show ?case
  proof (cases "stdin_grow alloc MAX_CLIPBOARD_SIZE tot capacity")
    case None
    then show ?thesis by (intro stop) (subst wl_stdin_loop.simps, simp)
  next
    case (Some oc)
    show ?thesis
    proof (cases oc)
      case None
      with Some show ?thesis by (intro stop) (subst wl_stdin_loop.simps, simp)
    next
      case (Some c')
      note g = \<open>stdin_grow alloc MAX_CLIPBOARD_SIZE tot capacity = Some oc\<close> [unfolded Some]
      show ?thesis
      proof (cases rs)
        case Nil
        with g show ?thesis by (intro stop) (subst wl_stdin_loop.simps, simp)
      next
        case (Cons r rs')
        show ?thesis
        proof (cases r)
          case (RdData d)
          show ?thesis
          proof (cases "take 4096 d = []")
            case True
            with g Cons RdData show ?thesis by (intro stop) (subst wl_stdin_loop.simps, simp)
          next
            case False
            with g Cons RdData show ?thesis by (intro step) auto
          qed
        next
          case RdEOF
          with g Cons show ?thesis by (intro stop) (subst wl_stdin_loop.simps, simp)
        next
          case RdAgain
          with g Cons show ?thesis by (intro stop) (subst wl_stdin_loop.simps, simp)
        next
          case RdErr
          with g Cons show ?thesis by (intro stop) (subst wl_stdin_loop.simps, simp)
        qed
      qed
    qed
  qed
qed

lemma x11_stdin_result:
  "4096 \<le> capacity \<Longrightarrow> tot \<le> capacity \<Longrightarrow> capacity \<le> MAX_SELECTION_SIZE \<Longrightarrow>
   length buf = tot \<Longrightarrow> x11_stdin_loop alloc rs buf tot capacity = Some (b, t) \<Longrightarrow>
   t \<le> MAX_SELECTION_SIZE \<and> length b = t \<and> tot \<le> t
   \<and> (\<exists>zs. b = buf @ zs \<and> prefix zs (stdin_bytes rs))"
proof (induction alloc rs buf tot capacity arbitrary: b t rule: x11_stdin_loop.induct)
  case (1 alloc rs buf tot capacity)
  note inv0 = "1.prems"(1,2,3)
  have stop: ?case if "x11_stdin_loop alloc rs buf tot capacity = Some (buf, tot)"
    using that "1.prems" by auto
  have step: ?case
    if g: "stdin_grow alloc MAX_SELECTION_SIZE tot capacity = Some (Some c')"
      and rs: "rs = RdData d # rs'" and d: "take 4096 d \<noteq> []" for c' d rs'
  proof -
    note inv = stdin_grow_inv [OF g inv0]
    have "length (take 4096 d) \<le> 4096" by simp
    with inv have le: "tot + length (take 4096 d) \<le> c'" by linarith
    have eq: "x11_stdin_loop alloc rs' (buf @ take 4096 d) (tot + length (take 4096 d)) c'
              = Some (b, t)"
      using "1.prems"(5) g rs d by (subst (asm) x11_stdin_loop.simps) simp
    have len: "length (buf @ take 4096 d) = tot + length (take 4096 d)"
      using "1.prems"(4) by simp
    from "1.IH" [OF g refl rs refl d _ le _ len eq] inv
    obtain zs where "t \<le> MAX_SELECTION_SIZE" "length b = t" "tot + length (take 4096 d) \<le> t"
      "b = (buf @ take 4096 d) @ zs" "prefix zs (stdin_bytes rs')" by blast
    with rs d show ?thesis by auto
  qed
  show ?case
  proof (cases "stdin_grow alloc MAX_SELECTION_SIZE tot capacity")
    case None
    then show ?thesis by (intro stop) (subst x11_stdin_loop.simps, simp)
  next
    case (Some oc)
    show ?thesis
    proof (cases oc)
      case None
      with Some "1.prems"(5) show ?thesis by (subst (asm) x11_stdin_loop.simps) simp
    next
      case (Some c')
      note g = \<open>stdin_grow alloc MAX_SELECTION_SIZE tot capacity = Some oc\<close> [unfolded Some]
      show ?thesis
      proof (cases rs)
        case Nil
        with g show ?thesis by (intro stop) (subst x11_stdin_loop.simps, simp)
      next
        case (Cons r rs')
        show ?thesis
        proof (cases r)
          case (RdData d)
          show ?thesis
          proof (cases "take 4096 d = []")
            case True
            with g Cons RdData show ?thesis by (intro stop) (subst x11_stdin_loop.simps, simp)
          next
            case False
            with g Cons RdData show ?thesis by (intro step) auto
          qed
        next
          case RdEOF
          with g Cons show ?thesis by (intro stop) (subst x11_stdin_loop.simps, simp)
        next
          case RdAgain
          with g Cons show ?thesis by (intro stop) (subst x11_stdin_loop.simps, simp)
        next
          case RdErr
          with g Cons show ?thesis by (intro stop) (subst x11_stdin_loop.simps, simp)
        qed
      qed
    qed
  qed
qed

lemma stdin_grow_no_failure:
  "stdin_grow no_alloc_failure cap tot capacity \<noteq> Some None"
  by (simp add: stdin_grow_def no_alloc_failure_def)

lemma x11_stdin_no_failure:
  "x11_stdin_loop no_alloc_failure rs buf tot capacity \<noteq> None"
proof (induction no_alloc_failure rs buf tot capacity rule: x11_stdin_loop.induct)
  case (1 rs buf tot capacity)
  then show ?case
    using stdin_grow_no_failure [of MAX_SELECTION_SIZE tot capacity]
    by (subst x11_stdin_loop.simps) (auto split: option.splits list.splits read_res.splits)
qed

lemma read_fd_with_timeout_result:
  "snd (read_fd_with_timeout alloc ps max_size) \<le> max_size
   \<and> length (buf_bytes (fst (read_fd_with_timeout alloc ps max_size)))
       = snd (read_fd_with_timeout alloc ps max_size)
   \<and> prefix (buf_bytes (fst (read_fd_with_timeout alloc ps max_size))) (pipe_bytes ps)"
proof -
  have "snd (read_fd_loop alloc max_size ps None 0 0) \<le> max_size"
    by (rule fd_loop_bound) simp
  moreover have "length (buf_bytes (fst (read_fd_loop alloc max_size ps None 0 0)))
                 = snd (read_fd_loop alloc max_size ps None 0 0)"
    by (rule fd_loop_length) (simp add: buf_bytes_def)
  moreover have "prefix (buf_bytes (fst (read_fd_loop alloc max_size ps None 0 0))) (pipe_bytes ps)"
    using fd_loop_prefix [of alloc max_size ps None 0 0] by (auto simp: buf_bytes_def)
  ultimately show ?thesis by (simp add: read_fd_with_timeout_def)
qed

lemma payload_of_buf: "length (buf_bytes (fst r)) = snd r \<Longrightarrow> payload_of r = buf_bytes (fst r)"
  by (cases r) (auto simp: payload_of_def buf_bytes_def split: option.splits)

lemma read_ps_offer_result:
  "snd (read_ps_offer t) \<le> MAX_SELECTION_SIZE
   \<and> length (payload_of (read_ps_offer t)) = snd (read_ps_offer t)
   \<and> prefix (payload_of (read_ps_offer t)) (pipe_bytes (pipe_script t))"
proof (cases "pipe_ok t")
  case True
  then have eq: "read_ps_offer t
                 = read_fd_with_timeout (alloc_ok t) (pipe_script t) MAX_SELECTION_SIZE"
    by (simp add: read_ps_offer_def)
  note r = read_fd_with_timeout_result [of "alloc_ok t" "pipe_script t" MAX_SELECTION_SIZE]
  from r have "payload_of (read_ps_offer t) = buf_bytes (fst (read_ps_offer t))"
    unfolding eq by (intro payload_of_buf) simp
  with r show ?thesis unfolding eq by simp
next
  case False
  then show ?thesis by (simp add: read_ps_offer_def payload_of_def)
qed

lemma read_clip_offer_result:
  "snd (read_clip_offer t) \<le> MAX_CLIPBOARD_SIZE
   \<and> length (payload_of (read_clip_offer t)) = snd (read_clip_offer t)
   \<and> prefix (payload_of (read_clip_offer t)) (pipe_bytes (pipe_script t))"
proof (cases "pipe_ok t")
  case True
  then have eq: "read_clip_offer t
                 = read_fd_with_timeout (alloc_ok t) (pipe_script t) MAX_CLIPBOARD_SIZE"
    by (simp add: read_clip_offer_def)
  note r = read_fd_with_timeout_result [of "alloc_ok t" "pipe_script t" MAX_CLIPBOARD_SIZE]
  from r have "payload_of (read_clip_offer t) = buf_bytes (fst (read_clip_offer t))"
    unfolding eq by (intro payload_of_buf) simp
  with r show ?thesis unfolding eq by simp
next
  case False
  then show ?thesis by (simp add: read_clip_offer_def payload_of_def)
qed

lemma wl_read_all_stdin_result:
  "snd (wl_read_all_stdin a rs) \<le> MAX_CLIPBOARD_SIZE
   \<and> length (payload_of (wl_read_all_stdin a rs)) = snd (wl_read_all_stdin a rs)
   \<and> prefix (payload_of (wl_read_all_stdin a rs)) (stdin_bytes rs)"
proof (cases "a 4096")
  case True
  obtain b t where bt: "wl_stdin_loop a rs [] 0 4096 = (b, t)" by (cases "wl_stdin_loop a rs [] 0 4096")
  from wl_stdin_result [OF _ _ _ _ bt] have "t \<le> MAX_CLIPBOARD_SIZE \<and> length b = t \<and> prefix b (stdin_bytes rs)"
    by (auto simp: MAX_CLIPBOARD_SIZE_def)
  with True bt show ?thesis by (simp add: wl_read_all_stdin_def payload_of_def)
next
  case False
  then show ?thesis by (simp add: wl_read_all_stdin_def payload_of_def)
qed

lemma x11_read_all_stdin_result:
  "snd (x11_read_all_stdin a rs) \<le> MAX_SELECTION_SIZE
   \<and> length (payload_of (x11_read_all_stdin a rs)) = snd (x11_read_all_stdin a rs)
   \<and> prefix (payload_of (x11_read_all_stdin a rs)) (stdin_bytes rs)"
proof (cases "a 4096")
  case True
  show ?thesis
  proof (cases "x11_stdin_loop a rs [] 0 4096")
    case None
    with True show ?thesis by (simp add: x11_read_all_stdin_def payload_of_def)
  next
    case (Some bt)
    obtain b t where bt: "bt = (b, t)" by (cases bt)
    from x11_stdin_result [OF _ _ _ _ Some [unfolded bt]]
    have "t \<le> MAX_SELECTION_SIZE \<and> length b = t \<and> prefix b (stdin_bytes rs)"
      by (auto simp: MAX_SELECTION_SIZE_def)
    with True Some bt show ?thesis by (simp add: x11_read_all_stdin_def payload_of_def)
  qed
next
  case False
  then show ?thesis by (simp add: x11_read_all_stdin_def payload_of_def)
qed

lemma get_primary_selection_bound: "snd (get_primary_selection r) \<le> MAX_SELECTION_SIZE"
  by (auto simp: get_primary_selection_def XGetWindowProperty_def MAX_SELECTION_SIZE_def
           split: option.splits)

lemma get_selection_bound: "snd (get_selection a r) \<le> MAX_SELECTION_SIZE"
  by (auto simp: get_selection_def XGetWindowProperty_def MAX_SELECTION_SIZE_def
           split: option.splits)

lemma x11_stdin_not_null: "fst (x11_read_all_stdin no_alloc_failure rs) \<noteq> None"
  using x11_stdin_no_failure [of rs "[]" 0 4096]
  by (auto simp: x11_read_all_stdin_def no_alloc_failure_def split: option.splits)

lemma wl_stdin_not_null: "fst (wl_read_all_stdin no_alloc_failure rs) \<noteq> None"
  by (auto simp: wl_read_all_stdin_def no_alloc_failure_def split: prod.splits)

lemma stdin_grow_break:
  assumes "stdin_grow alloc cap tot capacity = None" "cap = capacity * 2 ^ j" "0 < capacity"
  shows "cap < tot + 4096"
proof -
  from assms(1) have a: "capacity < tot + 4096" "cap < capacity * 2"
    by (auto simp: stdin_grow_def split: if_splits)
  have "j = 0"
  proof (rule ccontr)
    assume "j \<noteq> 0"
    then obtain i where "j = Suc i" by (cases j) auto
    then have "capacity * 2 \<le> cap" using assms(2) by simp
    with a show False by simp
  qed
  with assms(2) a show ?thesis by simp
qed

lemma stdin_grow_pow:
  assumes "stdin_grow alloc cap tot capacity = Some (Some c')" "cap = capacity * 2 ^ j"
    "0 < capacity"
  shows "\<exists>i. cap = c' * 2 ^ i"
proof (cases "c' = capacity")
  case True
  with assms(2) show ?thesis by blast
next
  case False
  with assms(1) have c: "c' = capacity * 2" "capacity * 2 \<le> cap"
    by (auto simp: stdin_grow_def split: if_splits)
  have "j \<noteq> 0" using c(2) assms(2,3) by (cases j) auto
  then obtain i where "j = Suc i" by (cases j) auto
  with assms(2) c have "cap = c' * 2 ^ i" by simp
  then show ?thesis by blast
qed

lemma x11_stdin_cut:
  "\<exists>j. MAX_SELECTION_SIZE = capacity * 2 ^ j \<Longrightarrow> 4096 \<le> capacity \<Longrightarrow> tot \<le> capacity \<Longrightarrow>
   x11_stdin_loop alloc rs buf tot capacity = Some (b, t) \<Longrightarrow>
   t < tot + length (stdin_bytes rs) \<Longrightarrow> MAX_SELECTION_SIZE < t + 4096"
proof (induction alloc rs buf tot capacity arbitrary: b t rule: x11_stdin_loop.induct)
  case (1 alloc rs buf tot capacity)
  from "1.prems"(1) obtain j where j: "MAX_SELECTION_SIZE = capacity * 2 ^ j" by blast
  have pos: "0 < capacity" using "1.prems"(2) by simp
  have cap_le: "capacity \<le> MAX_SELECTION_SIZE" unfolding j by simp
  note run = "1.prems"(4)
  show ?case
  proof (cases "stdin_grow alloc MAX_SELECTION_SIZE tot capacity")
    case None
    with run have "t = tot" by (subst (asm) x11_stdin_loop.simps) simp
    with stdin_grow_break [OF None j pos] show ?thesis by simp
  next
    case (Some oc)
    show ?thesis
    proof (cases oc)
      case None
      with Some run show ?thesis by (subst (asm) x11_stdin_loop.simps) simp
    next
      case (Some c')
      note g = \<open>stdin_grow alloc MAX_SELECTION_SIZE tot capacity = Some oc\<close> [unfolded Some]
      note inv = stdin_grow_inv [OF g "1.prems"(2,3) cap_le]
      show ?thesis
      proof (cases rs)
        case Nil
        with g run have "t = tot" by (subst (asm) x11_stdin_loop.simps) simp
        with Nil "1.prems"(5) show ?thesis by simp
      next
        case (Cons r rs')
        show ?thesis
        proof (cases r)
          case (RdData d)
          show ?thesis
          proof (cases "take 4096 d = []")
            case True
            with g Cons RdData run have "t = tot" by (subst (asm) x11_stdin_loop.simps) simp
            with True Cons RdData "1.prems"(5) show ?thesis by simp
          next
            case False
            have "length (take 4096 d) \<le> 4096" by simp
            with inv have le: "tot + length (take 4096 d) \<le> c'" by linarith
            have eq: "x11_stdin_loop alloc rs' (buf @ take 4096 d) (tot + length (take 4096 d)) c'
                      = Some (b, t)"
              using run g Cons RdData False by (subst (asm) x11_stdin_loop.simps) simp
            have more: "t < tot + length (take 4096 d) + length (stdin_bytes rs')"
              using "1.prems"(5) Cons RdData False by simp
            from inv have c4: "4096 \<le> c'" by simp
            from "1.IH" [OF g refl Cons RdData False stdin_grow_pow [OF g j pos] c4 le eq more]
            show ?thesis .
          qed
        next
          case RdEOF
          with g Cons run have "t = tot" by (subst (asm) x11_stdin_loop.simps) simp
          with RdEOF Cons "1.prems"(5) show ?thesis by simp
        next
          case RdAgain
          with g Cons run have "t = tot" by (subst (asm) x11_stdin_loop.simps) simp
          with RdAgain Cons "1.prems"(5) show ?thesis by simp
        next
          case RdErr
          with g Cons run have "t = tot" by (subst (asm) x11_stdin_loop.simps) simp
          with RdErr Cons "1.prems"(5) show ?thesis by simp
        qed
      qed
    qed
  qed
qed

lemma wl_stdin_cut:
  "\<exists>j. MAX_CLIPBOARD_SIZE = capacity * 2 ^ j \<Longrightarrow> 4096 \<le> capacity \<Longrightarrow> tot \<le> capacity \<Longrightarrow>
   (\<And>n. alloc n) \<Longrightarrow> wl_stdin_loop alloc rs buf tot capacity = (b, t) \<Longrightarrow>
   t < tot + length (stdin_bytes rs) \<Longrightarrow> MAX_CLIPBOARD_SIZE < t + 4096"
proof (induction alloc rs buf tot capacity arbitrary: b t rule: wl_stdin_loop.induct)
  case (1 alloc rs buf tot capacity)
  from "1.prems"(1) obtain j where j: "MAX_CLIPBOARD_SIZE = capacity * 2 ^ j" by blast
  have pos: "0 < capacity" using "1.prems"(2) by simp
  have cap_le: "capacity \<le> MAX_CLIPBOARD_SIZE" unfolding j by simp
  note run = "1.prems"(5)
  note more0 = "1.prems"(6)
  show ?case
  proof (cases "stdin_grow alloc MAX_CLIPBOARD_SIZE tot capacity")
    case None
    with run have "t = tot" by (subst (asm) wl_stdin_loop.simps) simp
    with stdin_grow_break [OF None j pos] show ?thesis by simp
  next
    case (Some oc)
    show ?thesis
    proof (cases oc)
      case None
      with Some "1.prems"(4) show ?thesis by (simp add: stdin_grow_def split: if_splits)
    next
      case (Some c')
      note g = \<open>stdin_grow alloc MAX_CLIPBOARD_SIZE tot capacity = Some oc\<close> [unfolded Some]
      note inv = stdin_grow_inv [OF g "1.prems"(2,3) cap_le]
      show ?thesis
      proof (cases rs)
        case Nil
        with g run have "t = tot" by (subst (asm) wl_stdin_loop.simps) simp
        with Nil more0 show ?thesis by simp
      next
        case (Cons r rs')
        show ?thesis
        proof (cases r)
          case (RdData d)
          show ?thesis
          proof (cases "take 4096 d = []")
            case True
            with g Cons RdData run have "t = tot" by (subst (asm) wl_stdin_loop.simps) simp
            with True Cons RdData more0 show ?thesis by simp
          next
            case False
            have "length (take 4096 d) \<le> 4096" by simp
            with inv have le: "tot + length (take 4096 d) \<le> c'" by linarith
            have eq: "wl_stdin_loop alloc rs' (buf @ take 4096 d) (tot + length (take 4096 d)) c'
                      = (b, t)"
              using run g Cons RdData False by (subst (asm) wl_stdin_loop.simps) simp
            have more: "t < tot + length (take 4096 d) + length (stdin_bytes rs')"
              using more0 Cons RdData False by simp
            from inv have c4: "4096 \<le> c'" by simp
            from "1.IH" [OF g refl Cons RdData False stdin_grow_pow [OF g j pos] c4 le "1.prems"(4) eq more]
            show ?thesis .
          qed
        next
          case RdEOF
          with g Cons run have "t = tot" by (subst (asm) wl_stdin_loop.simps) simp
          with RdEOF Cons more0 show ?thesis by simp
        next
          case RdAgain
          with g Cons run have "t = tot" by (subst (asm) wl_stdin_loop.simps) simp
          with RdAgain Cons more0 show ?thesis by simp
        next
          case RdErr
          with g Cons run have "t = tot" by (subst (asm) wl_stdin_loop.simps) simp
          with RdErr Cons more0 show ?thesis by simp
        qed
      qed
    qed
  qed
qed


lemma fd_grow_break:
  assumes "fd_grow alloc max_size buf tot capacity = None" "\<And>n. alloc n"
    "(capacity = 0 \<and> tot = 0 \<and> (\<exists>j. max_size = 4096 * 2 ^ j))
     \<or> ((\<exists>j. max_size = capacity * 2 ^ j) \<and> 4096 \<le> capacity \<and> tot \<le> capacity)"
  shows "max_size < tot + 4096"
proof -
  from assms(1,2) have a: "capacity < tot + 4096"
    "max_size < (if capacity \<noteq> 0 then capacity * 2 else 4096)"
    by (auto simp: fd_grow_def Let_def split: if_splits)
  show ?thesis
  proof (cases "capacity = 0")
    case True
    with assms(3) obtain j where "max_size = 4096 * 2 ^ j" by auto
    then have "4096 \<le> max_size" by simp
    with a True show ?thesis by simp
  next
    case False
    with assms(3) obtain j where j: "max_size = capacity * 2 ^ j" by auto
    have "j = 0"
    proof (rule ccontr)
      assume "j \<noteq> 0"
      then obtain i where "j = Suc i" by (cases j) auto
      then have "capacity * 2 \<le> max_size" using j by simp
      with a False show False by simp
    qed
    with j a show ?thesis by simp
  qed
qed

lemma fd_grow_step:
  assumes "fd_grow alloc max_size buf tot capacity = Some (buf', c')"
    "(capacity = 0 \<and> tot = 0 \<and> (\<exists>j. max_size = 4096 * 2 ^ j))
     \<or> ((\<exists>j. max_size = capacity * 2 ^ j) \<and> 4096 \<le> capacity \<and> tot \<le> capacity)"
  shows "(\<exists>i. max_size = c' * 2 ^ i) \<and> 4096 \<le> c' \<and> tot + 4096 \<le> c'"
proof (cases "capacity = 0")
  case True
  with assms have "c' = 4096" "tot = 0" "\<exists>j. max_size = 4096 * 2 ^ j"
    by (auto simp: fd_grow_def Let_def split: if_splits)
  then show ?thesis by simp
next
  case False
  with assms(2) obtain j where j: "max_size = capacity * 2 ^ j"
    and c4: "4096 \<le> capacity" and tc: "tot \<le> capacity" by auto
  show ?thesis
  proof (cases "c' = capacity")
    case True
    with assms(1) False have "tot + 4096 \<le> capacity"
      by (auto simp: fd_grow_def Let_def split: if_splits)
    with True j c4 show ?thesis by blast
  next
    case ne: False
    with assms(1) False have c: "c' = capacity * 2" "capacity * 2 \<le> max_size"
      by (auto simp: fd_grow_def Let_def split: if_splits)
    have "j \<noteq> 0" using c(2) j False by (cases j) auto
    then obtain i where "j = Suc i" by (cases j) auto
    with j c have "max_size = c' * 2 ^ i" by simp
    moreover have "4096 \<le> c'" "tot + 4096 \<le> c'" using c c4 tc by simp_all
    ultimately show ?thesis by blast
  qed
qed

lemma fd_loop_cut:
  "(\<And>n. alloc n) \<Longrightarrow>
   (capacity = 0 \<and> tot = 0 \<and> (\<exists>j. max_size = 4096 * 2 ^ j))
     \<or> ((\<exists>j. max_size = capacity * 2 ^ j) \<and> 4096 \<le> capacity \<and> tot \<le> capacity) \<Longrightarrow>
   snd (read_fd_loop alloc max_size ps buf tot capacity) < tot + length (pipe_bytes ps) \<Longrightarrow>
   max_size < snd (read_fd_loop alloc max_size ps buf tot capacity) + 4096"
proof (induction alloc max_size ps buf tot capacity rule: read_fd_loop.induct)
  case (5 alloc max_size r ps buf tot capacity)
  note al = "5.prems"(1) and inv0 = "5.prems"(2) and more0 = "5.prems"(3)
  show ?case
  proof (cases "fd_grow alloc max_size buf tot capacity")
    case None
    with fd_grow_break [OF None al inv0] show ?thesis by simp
  next
    case (Some bc)
    obtain buf' c' where bc: "bc = (buf', c')" by (cases bc)
    note inv = fd_grow_step [OF Some [unfolded bc] inv0]
    show ?thesis
    proof (cases r)
      case (RdData d)
      show ?thesis
      proof (cases "take 4096 d = []")
        case True
        with Some bc RdData more0 show ?thesis by simp
      next
        case False
        let ?run = "read_fd_loop alloc max_size ps (Some (buf_bytes buf' @ take 4096 d))
                      (tot + length (take 4096 d)) c'"
        have run: "read_fd_loop alloc max_size (PollIn r # ps) buf tot capacity = ?run"
          using Some bc RdData False by simp
        have "length (take 4096 d) \<le> 4096" by simp
        with inv have inv': "(c' = 0 \<and> tot + length (take 4096 d) = 0 \<and> (\<exists>j. max_size = 4096 * 2 ^ j))
           \<or> ((\<exists>j. max_size = c' * 2 ^ j) \<and> 4096 \<le> c' \<and> tot + length (take 4096 d) \<le> c')"
          by (intro disjI2) (metis add_le_cancel_left le_trans)
        have more: "snd ?run < tot + length (take 4096 d) + length (pipe_bytes ps)"
          using more0 RdData False unfolding run by simp
        from "5.IH"(1) [OF Some bc [symmetric] RdData False al inv' more]
        show ?thesis unfolding run .
      qed
    next
      case RdAgain
      have run: "read_fd_loop alloc max_size (PollIn r # ps) buf tot capacity
                 = read_fd_loop alloc max_size ps buf' tot c'"
        using Some bc RdAgain by simp
      from inv have inv': "(c' = 0 \<and> tot = 0 \<and> (\<exists>j. max_size = 4096 * 2 ^ j))
           \<or> ((\<exists>j. max_size = c' * 2 ^ j) \<and> 4096 \<le> c' \<and> tot \<le> c')"
        by (intro disjI2) auto
      have more: "snd (read_fd_loop alloc max_size ps buf' tot c') < tot + length (pipe_bytes ps)"
        using more0 RdAgain unfolding run by simp
      from "5.IH"(2) [OF Some bc [symmetric] RdAgain al inv' more]
      show ?thesis unfolding run .
    next
      case RdEOF
      with Some bc more0 show ?thesis by simp
    next
      case RdErr
      with Some bc more0 show ?thesis by simp
    qed
  qed
qed auto

lemma pow_sizes:
  "\<exists>j. MAX_SELECTION_SIZE = 4096 * 2 ^ j" "\<exists>j. MAX_CLIPBOARD_SIZE = 4096 * 2 ^ j"
proof -
  have "MAX_SELECTION_SIZE = 4096 * 2 ^ 8" by (simp add: MAX_SELECTION_SIZE_def)
  then show "\<exists>j. MAX_SELECTION_SIZE = 4096 * 2 ^ j" by blast
  have "MAX_CLIPBOARD_SIZE = 4096 * 2 ^ 10" by (simp add: MAX_CLIPBOARD_SIZE_def)
  then show "\<exists>j. MAX_CLIPBOARD_SIZE = 4096 * 2 ^ j" by blast
qed

lemma read_fd_with_timeout_cut:
  "\<exists>j. max_size = 4096 * 2 ^ j \<Longrightarrow>
   snd (read_fd_with_timeout no_alloc_failure ps max_size) < length (pipe_bytes ps) \<Longrightarrow>
   max_size < snd (read_fd_with_timeout no_alloc_failure ps max_size) + 4096"
  unfolding read_fd_with_timeout_def
  by (rule fd_loop_cut) (simp_all add: no_alloc_failure_def)

lemma read_ps_offer_cut:
  "pipe_ok t \<Longrightarrow> alloc_ok t = no_alloc_failure \<Longrightarrow>
   snd (read_ps_offer t) < length (pipe_bytes (pipe_script t)) \<Longrightarrow>
   MAX_SELECTION_SIZE < snd (read_ps_offer t) + 4096"
  using read_fd_with_timeout_cut [OF pow_sizes(1), of "pipe_script t"]
  by (simp add: read_ps_offer_def)

lemma read_clip_offer_cut:
  "pipe_ok t \<Longrightarrow> alloc_ok t = no_alloc_failure \<Longrightarrow>
   snd (read_clip_offer t) < length (pipe_bytes (pipe_script t)) \<Longrightarrow>
   MAX_CLIPBOARD_SIZE < snd (read_clip_offer t) + 4096"
  using read_fd_with_timeout_cut [OF pow_sizes(2), of "pipe_script t"]
  by (simp add: read_clip_offer_def)

lemma wl_read_all_stdin_cut:
  assumes "snd (wl_read_all_stdin no_alloc_failure rs) < length (stdin_bytes rs)"
  shows "MAX_CLIPBOARD_SIZE < snd (wl_read_all_stdin no_alloc_failure rs) + 4096"
proof -
  obtain b t where bt: "wl_stdin_loop no_alloc_failure rs [] 0 4096 = (b, t)"
    by (cases "wl_stdin_loop no_alloc_failure rs [] 0 4096")
  then have s: "snd (wl_read_all_stdin no_alloc_failure rs) = t"
    by (simp add: wl_read_all_stdin_def no_alloc_failure_def)
  have "MAX_CLIPBOARD_SIZE < t + 4096"
    by (rule wl_stdin_cut [OF pow_sizes(2) _ _ _ bt])
       (use assms s in \<open>simp_all add: no_alloc_failure_def\<close>)
  with s show ?thesis by simp
qed

lemma x11_read_all_stdin_cut:
  assumes "fst (x11_read_all_stdin a rs) \<noteq> None"
    "snd (x11_read_all_stdin a rs) < length (stdin_bytes rs)"
  shows "MAX_SELECTION_SIZE < snd (x11_read_all_stdin a rs) + 4096"
proof -
  from assms(1) obtain b t where bt: "x11_stdin_loop a rs [] 0 4096 = Some (b, t)"
    by (auto simp: x11_read_all_stdin_def split: if_splits option.splits)
  with assms(1) have s: "snd (x11_read_all_stdin a rs) = t"
    by (auto simp: x11_read_all_stdin_def split: if_splits)
  have "MAX_SELECTION_SIZE < t + 4096"
    by (rule x11_stdin_cut [OF pow_sizes(1) _ _ bt]) (use assms s in simp_all)
  with s show ?thesis by simp
qed

lemma pipe_bytes_full:
  "pipe_bytes (replicate n (PollIn (RdData (replicate 4096 c)))) = replicate (4096 * n) c"
  by (induction n) (auto simp: replicate_add)

lemma stdin_bytes_full:
  "stdin_bytes (replicate n (RdData (replicate 4096 c))) = replicate (4096 * n) c"
  by (induction n) (auto simp: replicate_add)

text \<open>
  Claim C3, as the code has it. A PRIMARY payload read by the daemon or the one-shot mode
  has at most \<open>MAX_SELECTION_SIZE\<close> (1 MiB) bytes, on Wayland and on X11. A CLIPBOARD
  payload has at most \<open>MAX_CLIPBOARD_SIZE\<close> (4 MiB) bytes on Wayland, for
  \<open>get-clipboard\<close> and for the standard input of \<open>copy-clipboard\<close>; the X11 backend
  has the single cap \<open>MAX_SELECTION_SIZE\<close> and applies it to both. What a read loop
  returns is a prefix of the bytes it was sent. An input that is too long is cut without
  an error: the buffer is returned (not \<open>NULL\<close>) whenever the allocations succeed, and
  when bytes were dropped the prefix kept ends less than 4096 bytes (one read) below the
  cap, not necessarily at the cap.
\<close>

theorem payload_bounds:
  "snd (read_ps_offer t) \<le> MAX_SELECTION_SIZE
   \<and> prefix (payload_of (read_ps_offer t)) (pipe_bytes (pipe_script t))
   \<and> (pipe_ok t \<and> alloc_ok t = no_alloc_failure
        \<and> snd (read_ps_offer t) < length (pipe_bytes (pipe_script t))
       \<longrightarrow> MAX_SELECTION_SIZE < snd (read_ps_offer t) + 4096)
   \<and> snd (get_primary_selection r) \<le> MAX_SELECTION_SIZE
   \<and> snd (read_clip_offer t) \<le> MAX_CLIPBOARD_SIZE
   \<and> prefix (payload_of (read_clip_offer t)) (pipe_bytes (pipe_script t))
   \<and> (pipe_ok t \<and> alloc_ok t = no_alloc_failure
        \<and> snd (read_clip_offer t) < length (pipe_bytes (pipe_script t))
       \<longrightarrow> MAX_CLIPBOARD_SIZE < snd (read_clip_offer t) + 4096)
   \<and> snd (get_selection CLIPBOARD r) \<le> MAX_SELECTION_SIZE
   \<and> snd (wl_read_all_stdin a rs) \<le> MAX_CLIPBOARD_SIZE
   \<and> prefix (payload_of (wl_read_all_stdin a rs)) (stdin_bytes rs)
   \<and> fst (wl_read_all_stdin no_alloc_failure rs) \<noteq> None
   \<and> (snd (wl_read_all_stdin no_alloc_failure rs) < length (stdin_bytes rs)
       \<longrightarrow> MAX_CLIPBOARD_SIZE < snd (wl_read_all_stdin no_alloc_failure rs) + 4096)
   \<and> snd (x11_read_all_stdin a rs) \<le> MAX_SELECTION_SIZE
   \<and> prefix (payload_of (x11_read_all_stdin a rs)) (stdin_bytes rs)
   \<and> fst (x11_read_all_stdin no_alloc_failure rs) \<noteq> None
   \<and> (fst (x11_read_all_stdin a rs) \<noteq> None
        \<and> snd (x11_read_all_stdin a rs) < length (stdin_bytes rs)
       \<longrightarrow> MAX_SELECTION_SIZE < snd (x11_read_all_stdin a rs) + 4096)"
  using read_ps_offer_result [of t] read_clip_offer_result [of t]
    wl_read_all_stdin_result [of a rs] x11_read_all_stdin_result [of a rs]
    get_primary_selection_bound [of r] get_selection_bound [of CLIPBOARD r]
    x11_stdin_not_null [of rs] wl_stdin_not_null [of rs]
    read_ps_offer_cut [of t] read_clip_offer_cut [of t]
    wl_read_all_stdin_cut [of rs] x11_read_all_stdin_cut [of a rs]
  by blast

theorem payload_bounds_witness:
  "snd (read_ps_offer long_transfer) \<le> 1048576
   \<and> 1048576 < snd (read_ps_offer long_transfer) + 4096
   \<and> snd (read_clip_offer long_transfer) \<le> 4194304
   \<and> 4194304 < snd (read_clip_offer long_transfer) + 4096
   \<and> snd (wl_read_all_stdin no_alloc_failure long_stdin) \<le> 4194304
   \<and> 4194304 < snd (wl_read_all_stdin no_alloc_failure long_stdin) + 4096
   \<and> snd (x11_read_all_stdin no_alloc_failure long_stdin) \<le> 1048576
   \<and> 1048576 < snd (x11_read_all_stdin no_alloc_failure long_stdin) + 4096"
proof -
  have l1: "length (pipe_bytes (pipe_script long_transfer)) = 4198400"
    by (simp add: long_transfer_def pipe_bytes_full)
  have l2: "length (stdin_bytes long_stdin) = 4198400"
    by (simp add: long_stdin_def stdin_bytes_full)
  have p: "pipe_ok long_transfer" "alloc_ok long_transfer = no_alloc_failure"
    by (simp_all add: long_transfer_def)
  from payload_bounds [of long_transfer "owner_reply ''hi''" no_alloc_failure long_stdin] l1 l2 p
  show ?thesis
    by (simp add: MAX_SELECTION_SIZE_def MAX_CLIPBOARD_SIZE_def)
qed

lemma sizes_one_then_full:
  "stdin_sizes no_alloc_failure MAX_SELECTION_SIZE (1 # replicate 256 4096) 0 4096 = Some 1044481"
  by (simp add: stdin_sizes.simps replicate_step stdin_grow_def MAX_SELECTION_SIZE_def no_alloc_failure_def)

text \<open>The claim as stated fails on the X11 \<open>copy-clipboard\<close>: standard input
  delivers 1 MiB + 1 bytes, below the 4 MiB cap the claim gives to CLIPBOARD payloads,
  in one read of 1 byte and 256 reads of 4096 bytes; 1044481 bytes are kept, which is
  neither the input nor a cap.\<close>

theorem clipboard_stdin_cut_short:
  "snd (x11_read_all_stdin no_alloc_failure
          (RdData ''a'' # replicate 256 (RdData (replicate 4096 CHR ''a'')))) = 1044481
   \<and> length (stdin_bytes (RdData ''a'' # replicate 256 (RdData (replicate 4096 CHR ''a''))))
       = 1048577
   \<and> MAX_CLIPBOARD_SIZE = 4194304"
proof -
  let ?rs = "RdData ''a'' # replicate 256 (RdData (replicate 4096 CHR ''a''))"
  have "map_option snd (x11_stdin_loop no_alloc_failure ?rs [] 0 4096) = Some 1044481"
    unfolding x11_sizes using sizes_one_then_full by simp
  then have "snd (x11_read_all_stdin no_alloc_failure ?rs) = 1044481"
    by (auto simp: x11_read_all_stdin_def no_alloc_failure_def split: option.splits)
  moreover have "length (stdin_bytes ?rs) = 1048577"
    by (simp add: stdin_bytes_full)
  ultimately show ?thesis by (simp add: MAX_CLIPBOARD_SIZE_def)
qed

lemma stdin_bytes_nonempty:
  "stdin_bytes rs \<noteq> [] \<Longrightarrow> \<exists>d rest. rs = RdData d # rest \<and> take 4096 d \<noteq> []"
  by (cases rs rule: stdin_bytes.cases) (auto split: if_splits)

lemma x11_stdin_empty: "stdin_bytes rs = [] \<Longrightarrow> snd (x11_read_all_stdin a rs) = 0"
  using x11_read_all_stdin_result [of a rs] by auto

lemma wl_stdin_empty: "stdin_bytes rs = [] \<Longrightarrow> snd (wl_read_all_stdin a rs) = 0"
  using wl_read_all_stdin_result [of a rs] by auto

lemma x11_stdin_some_bytes:
  assumes "stdin_bytes rs \<noteq> []"
  shows "\<exists>b t. x11_read_all_stdin no_alloc_failure rs = (Some b, t) \<and> 0 < t"
proof -
  from stdin_bytes_nonempty [OF assms] obtain d rest
    where rs: "rs = RdData d # rest" and d: "take 4096 d \<noteq> []" by blast
  let ?c = "take 4096 d"
  have first: "x11_stdin_loop no_alloc_failure rs [] 0 4096
               = x11_stdin_loop no_alloc_failure rest ?c (length ?c) 4096"
    using rs d by (subst x11_stdin_loop.simps) (simp add: stdin_grow_def)
  obtain b t where bt: "x11_stdin_loop no_alloc_failure rest ?c (length ?c) 4096 = Some (b, t)"
    using x11_stdin_no_failure [of rest ?c "length ?c" 4096] by (cases "x11_stdin_loop no_alloc_failure rest ?c (length ?c) 4096") auto
  have "length ?c \<le> t"
    using x11_stdin_result [OF _ _ _ _ bt] by (simp add: MAX_SELECTION_SIZE_def)
  moreover have "0 < length ?c" using d by simp
  ultimately have "0 < t" by linarith
  with first bt show ?thesis
    by (simp add: x11_read_all_stdin_def no_alloc_failure_def)
qed

lemma wl_stdin_some_bytes:
  assumes "stdin_bytes rs \<noteq> []"
  shows "\<exists>b t. wl_read_all_stdin no_alloc_failure rs = (Some b, t) \<and> 0 < t"
proof -
  from stdin_bytes_nonempty [OF assms] obtain d rest
    where rs: "rs = RdData d # rest" and d: "take 4096 d \<noteq> []" by blast
  let ?c = "take 4096 d"
  have first: "wl_stdin_loop no_alloc_failure rs [] 0 4096
               = wl_stdin_loop no_alloc_failure rest ?c (length ?c) 4096"
    using rs d by (subst wl_stdin_loop.simps) (simp add: stdin_grow_def)
  obtain b t where bt: "wl_stdin_loop no_alloc_failure rest ?c (length ?c) 4096 = (b, t)"
    by (cases "wl_stdin_loop no_alloc_failure rest ?c (length ?c) 4096")
  have "length ?c \<le> t"
    using wl_stdin_result [OF _ _ _ _ bt] by (simp add: MAX_CLIPBOARD_SIZE_def)
  moreover have "0 < length ?c" using d by simp
  ultimately have "0 < t" by linarith
  with first bt show ?thesis
    by (simp add: wl_read_all_stdin_def no_alloc_failure_def)
qed

lemma x11_copy_empty:
  "stdin_bytes (copy_stdin e) = [] \<Longrightarrow> x11_run_copy_clipboard e = CopyReturn 1"
  using x11_stdin_empty [of "copy_stdin e" "copy_alloc e"]
  by (auto simp: x11_run_copy_clipboard_def split: prod.splits option.splits)

lemma wl_copy_empty:
  "stdin_bytes (wc_stdin w) = [] \<Longrightarrow> wl_run_copy_clipboard w = CopyReturn 1"
  using wl_stdin_empty [of "wc_stdin w" "wc_alloc w"]
  by (auto simp: wl_run_copy_clipboard_def split: prod.splits option.splits)

lemma x11_copy_parent:
  "copy_alloc e = no_alloc_failure \<Longrightarrow> stdin_bytes (copy_stdin e) \<noteq> [] \<Longrightarrow>
   owner_granted e \<Longrightarrow> fork_result e = ForkParent \<Longrightarrow>
   x11_run_copy_clipboard e = CopyParentExit 0"
  using x11_stdin_some_bytes [of "copy_stdin e"]
  by (auto simp: x11_run_copy_clipboard_def)

lemma wl_copy_parent:
  "wc_alloc w = no_alloc_failure \<Longrightarrow> stdin_bytes (wc_stdin w) \<noteq> [] \<Longrightarrow>
   wc_connect w = Some g \<Longrightarrow> has_ddm g \<Longrightarrow> has_seat g \<Longrightarrow> wc_fork w = ForkParent \<Longrightarrow>
   wl_run_copy_clipboard w = CopyParentExit 0"
  using wl_stdin_some_bytes [of "wc_stdin w"]
  by (auto simp: wl_run_copy_clipboard_def)

text \<open>
  Claim C7, as the code has it. \<open>copy-clipboard\<close> returns 1 when standard input
  delivers no byte. When it delivers at least one byte, the allocations succeed, the
  selection is acquired (X11: ownership granted; Wayland: connection, data device manager
  and seat present) and \<open>fork\<close> succeeds, the parent leaves with \<open>_exit(0)\<close> right
  after the \<open>fork\<close>, whatever the length of the input: an oversized input is cut
  (claim C3), not refused.
\<close>

theorem copy_clipboard_exit_status:
  "(stdin_bytes (copy_stdin e) = [] \<longrightarrow> x11_run_copy_clipboard e = CopyReturn 1)
   \<and> (stdin_bytes (wc_stdin w) = [] \<longrightarrow> wl_run_copy_clipboard w = CopyReturn 1)
   \<and> (copy_alloc e = no_alloc_failure \<and> stdin_bytes (copy_stdin e) \<noteq> []
        \<and> owner_granted e \<and> fork_result e = ForkParent
       \<longrightarrow> x11_run_copy_clipboard e = CopyParentExit 0)
   \<and> (wc_alloc w = no_alloc_failure \<and> stdin_bytes (wc_stdin w) \<noteq> []
        \<and> wc_connect w = Some g \<and> has_ddm g \<and> has_seat g \<and> wc_fork w = ForkParent
       \<longrightarrow> wl_run_copy_clipboard w = CopyParentExit 0)"
  using x11_copy_empty wl_copy_empty x11_copy_parent wl_copy_parent by blast

theorem copy_clipboard_exit_status_witness:
  "x11_run_copy_clipboard (x11_copy_run []) = CopyReturn 1
   \<and> wl_run_copy_clipboard (wl_copy_run []) = CopyReturn 1
   \<and> x11_run_copy_clipboard (x11_copy_run [RdData ''xyz'']) = CopyParentExit 0
   \<and> wl_run_copy_clipboard (wl_copy_run [RdData ''xyz'']) = CopyParentExit 0"
  using copy_clipboard_exit_status [of "x11_copy_run []" "wl_copy_run []" all_globals]
    copy_clipboard_exit_status
      [of "x11_copy_run [RdData ''xyz'']" "wl_copy_run [RdData ''xyz'']" all_globals]
  by (simp add: x11_copy_run_def wl_copy_run_def all_globals_def)

text \<open>The claim as stated fails: standard input delivers 4198400 bytes, more than
  \<open>MAX_CLIPBOARD_SIZE\<close>, and the parent exits with status 0 on both backends.\<close>

theorem oversized_stdin_is_accepted:
  "length (stdin_bytes (replicate 1025 (RdData (replicate 4096 CHR ''a'')))) = 4198400
   \<and> MAX_CLIPBOARD_SIZE = 4194304
   \<and> wl_run_copy_clipboard (wl_copy_run (replicate 1025 (RdData (replicate 4096 CHR ''a''))))
       = CopyParentExit 0
   \<and> x11_run_copy_clipboard (x11_copy_run (replicate 1025 (RdData (replicate 4096 CHR ''a''))))
       = CopyParentExit 0"
proof -
  let ?rs = "replicate 1025 (RdData (replicate 4096 CHR ''a''))"
  have len: "length (stdin_bytes ?rs) = 4198400" by (simp add: stdin_bytes_full)
  then have ne: "stdin_bytes ?rs \<noteq> []" by auto
  have "wl_run_copy_clipboard (wl_copy_run ?rs) = CopyParentExit 0"
    by (rule wl_copy_parent [where g = all_globals])
       (use ne in \<open>simp_all add: wl_copy_run_def all_globals_def\<close>)
  moreover have "x11_run_copy_clipboard (x11_copy_run ?rs) = CopyParentExit 0"
    by (rule x11_copy_parent) (use ne in \<open>simp_all add: x11_copy_run_def\<close>)
  ultimately show ?thesis using len by (simp add: MAX_CLIPBOARD_SIZE_def)
qed

section \<open>The first selection event of a daemon\<close>

lemma seq_line_1002: "seq_line 1002 = ''1002'' @ [CHR 0x0A]"
  by (simp add: seq_line_def decimal.simps digit_char_def)

lemma pid_line_4242: "pid_line 4242 = ''4242'' @ [CHR 0x0A]"
  by (simp add: pid_line_def decimal.simps digit_char_def)

lemma get_primary_selection_owner_reply:
  "d \<noteq> [] \<Longrightarrow> length d \<le> MAX_SELECTION_SIZE \<Longrightarrow>
   get_primary_selection (owner_reply d) = (Some d, length d)"
  by (simp add: get_primary_selection_def owner_reply_def wait_notify.simps seen_at_once_def
      XGetWindowProperty_def MAX_SELECTION_SIZE_def)

lemma read_ps_offer_pipe_delivers:
  "d \<noteq> [] \<Longrightarrow> length d \<le> 4096 \<Longrightarrow> read_ps_offer (pipe_delivers d) = (Some d, length d)"
  by (simp add: read_ps_offer_def pipe_delivers_def read_fd_with_timeout_def fd_grow_def
      MAX_SELECTION_SIZE_def no_alloc_failure_def buf_bytes_def)

lemma x11_one_event:
  assumes "ensure_cache_dir de = Some cache_dir"
  shows
  "x11_run_daemon (x11_daemon_run de seed r0
       [XFixesSelectionNotify PRIMARY (owner_reply ''hello'') io_ok]) dk
   = (let dk0 = dk(named_from_cwd de :=
                     (dk (named_from_cwd de))(PRIMARY_FILE \<mapsto> [],
                        SEQ_FILE \<mapsto> seq_line seed));
          d = dir_after_chdir de cache_dir
      in Waiting (dk0(d := (dk0 d)(PRIMARY_FILE \<mapsto> ''hello'',
                                  SEQ_FILE \<mapsto> seq_line (seed + 2),
                                  PID_FILE \<mapsto> pid_line 4242))))"
proof -
  have g: "get_primary_selection (owner_reply ''hello'') = (Some ''hello'', 5)"
    using get_primary_selection_owner_reply [of "''hello''"] by (simp add: MAX_SELECTION_SIZE_def)
  have two: "seed + 1 + 1 = seed + 2" by simp
  show ?thesis
    by (cases "get_primary_selection r0")
       (auto simp: x11_run_daemon_def x11_daemon_run_def Let_def x11_check_and_update_primary_def
          g write_primary_files io_ok_def write_pid_def two fun_eq_iff assms in_dir_def)
qed

lemma all_globals_fields [simp]:
  "has_seat all_globals" "has_ps_manager all_globals" "has_ddm all_globals"
  "has_compositor all_globals" "has_xdg_wm_base all_globals" "has_shm all_globals"
  by (simp_all add: all_globals_def)

lemma pipe_delivers_alloc [simp]: "alloc_ok (pipe_delivers d) = no_alloc_failure"
  by (simp add: pipe_delivers_def)

lemma wl_startup:
  "create_daemon_surface all_globals quiet_surface st = (0, st\<lparr>surface_configured := True\<rparr>)"
  by (simp add: create_daemon_surface_def all_globals_def quiet_surface_def
      xdg_surface_handle_configure_def)

lemma wl_events_disk:
  assumes "ensure_cache_dir de = Some cache_dir"
  shows
  "wl_run_daemon (wl_daemon_run de seed turns) dk
   = (let dk0 = dk(named_from_cwd de :=
                     (dk (named_from_cwd de))(PRIMARY_FILE \<mapsto> [],
                        SEQ_FILE \<mapsto> seq_line seed));
          d = dir_after_chdir de cache_dir
      in (case wl_daemon_loop turns
                 ((wl_start ((dk0 d)(PID_FILE \<mapsto> pid_line 4242)))
                    \<lparr>is_daemon_mode := True, seq_counter := seed,
                     surface_configured := True\<rparr>) of
            Blocked st \<Rightarrow> Waiting (dk0(d := wl_cache st))
          | Stopped st \<Rightarrow>
              Exited 0 (dk0(d := unlink_cache (wl_cache (wayland_disconnect st))))))"
  by (simp add: wl_run_daemon_def wl_daemon_run_def Let_def wl_startup assms in_dir_def
      write_primary_files io_ok_def write_pid_def wl_start_def)

lemma wl_one_event:
  assumes "ensure_cache_dir de = Some cache_dir"
  shows
  "wl_run_daemon (wl_daemon_run de seed [events_turn (text_selection k ''hello'')]) dk
   = (let dk0 = dk(named_from_cwd de :=
                     (dk (named_from_cwd de))(PRIMARY_FILE \<mapsto> [],
                        SEQ_FILE \<mapsto> seq_line seed));
          d = dir_after_chdir de cache_dir
      in Waiting (dk0(d := (dk0 d)(PRIMARY_FILE \<mapsto> ''hello'',
                                  SEQ_FILE \<mapsto> seq_line (seed + 2),
                                  PID_FILE \<mapsto> pid_line 4242))))"
proof -
  have r: "read_ps_offer (pipe_delivers ''hello'') = (Some ''hello'', 5)"
    using read_ps_offer_pipe_delivers [of "''hello''"] by simp
  have two: "seed + 1 + 1 = seed + 2" by simp
  show ?thesis
    by (auto simp: wl_events_disk [OF assms] Let_def
      wl_start_def write_primary_files io_ok_def events_turn_def
      text_selection_def ps_device_handle_data_offer_def ps_offer_handle_offer_def
      ps_device_handle_selection_def ps_release_previous_def r content_changed_def
      bump_and_write_def remember_def no_alloc_failure_def two fun_eq_iff)
qed

text \<open>
  Claim C6, as the code has it. A daemon starts with the counter seeded to the current
  time and publishes the empty payload; every call succeeds. When then exactly one
  PRIMARY selection event with content \<open>hello\<close> has been handled, the primary file
  holds exactly \<open>hello\<close> and the seq file holds the seed plus two: the X11 daemon
  has already incremented once for the read it makes at startup, the Wayland handler
  increments once on entry and once more before it writes. The files are those of the
  directory that \<open>cache_dir\<close> names after \<open>daemon(0, 0)\<close>, which is the directory of the
  initial publish whenever \<open>cache_dir\<close> is an absolute name; no other file of the disk
  has changed.
\<close>

theorem first_selection_gives_seed_plus_two:
  assumes "ensure_cache_dir de = Some cache_dir"
  shows
  "x11_run_daemon (x11_daemon_run de seed r0
       [XFixesSelectionNotify PRIMARY (owner_reply ''hello'') io_ok]) dk
   = (let dk0 = dk(named_from_cwd de :=
                     (dk (named_from_cwd de))(PRIMARY_FILE \<mapsto> [],
                        SEQ_FILE \<mapsto> seq_line seed));
          d = dir_after_chdir de cache_dir
      in Waiting (dk0(d := (dk0 d)(PRIMARY_FILE \<mapsto> ''hello'',
                                  SEQ_FILE \<mapsto> seq_line (seed + 2),
                                  PID_FILE \<mapsto> pid_line 4242))))
   \<and> wl_run_daemon (wl_daemon_run de seed [events_turn (text_selection k ''hello'')]) dk
   = (let dk0 = dk(named_from_cwd de :=
                     (dk (named_from_cwd de))(PRIMARY_FILE \<mapsto> [],
                        SEQ_FILE \<mapsto> seq_line seed));
          d = dir_after_chdir de cache_dir
      in Waiting (dk0(d := (dk0 d)(PRIMARY_FILE \<mapsto> ''hello'',
                                  SEQ_FILE \<mapsto> seq_line (seed + 2),
                                  PID_FILE \<mapsto> pid_line 4242))))"
  using x11_one_event [OF assms] wl_one_event [OF assms] by simp

theorem first_selection_gives_seed_plus_two_witness:
  "x11_run_daemon (x11_daemon_run absolute_dirs 1000 no_owner_reply
       [XFixesSelectionNotify PRIMARY (owner_reply ''hello'') io_ok]) no_disk
   = Waiting (no_disk(5 := no_files(PRIMARY_FILE \<mapsto> ''hello'',
                 SEQ_FILE \<mapsto> ''1002'' @ [CHR 0x0A], PID_FILE \<mapsto> ''4242'' @ [CHR 0x0A])))
   \<and> wl_run_daemon (wl_daemon_run absolute_dirs 1000
         [events_turn (text_selection 3 ''hello'')]) no_disk
   = Waiting (no_disk(5 := no_files(PRIMARY_FILE \<mapsto> ''hello'',
                 SEQ_FILE \<mapsto> ''1002'' @ [CHR 0x0A], PID_FILE \<mapsto> ''4242'' @ [CHR 0x0A])))"
  using first_selection_gives_seed_plus_two
          [OF conjunct1 [OF absolute_cache_dir], of 1000 no_owner_reply no_disk 3]
  by (simp add: seq_line_1002 pid_line_4242 absolute_cache_dir Let_def)

lemma seq_line_1001: "seq_line 1001 = ''1001'' @ [CHR 0x0A]"
  by (simp add: seq_line_def decimal.simps digit_char_def)

text \<open>The claim as stated fails with seed 1000 on both backends: the seq file holds
  1002, not 1001.\<close>

theorem first_selection_is_not_seed_plus_one:
  "(case x11_run_daemon (x11_daemon_run absolute_dirs 1000 no_owner_reply
           [XFixesSelectionNotify PRIMARY (owner_reply ''hello'') io_ok]) no_disk of
      Waiting dk \<Rightarrow> dk 5 PRIMARY_FILE = Some ''hello''
                   \<and> dk 5 SEQ_FILE = Some (''1002'' @ [CHR 0x0A])
                   \<and> dk 5 SEQ_FILE \<noteq> Some (seq_line (1000 + 1))
    | Exited rc dk \<Rightarrow> False)
   \<and> (case wl_run_daemon (wl_daemon_run absolute_dirs 1000
              [events_turn (text_selection 3 ''hello'')]) no_disk of
      Waiting dk \<Rightarrow> dk 5 PRIMARY_FILE = Some ''hello''
                   \<and> dk 5 SEQ_FILE = Some (''1002'' @ [CHR 0x0A])
                   \<and> dk 5 SEQ_FILE \<noteq> Some (seq_line (1000 + 1))
    | Exited rc dk \<Rightarrow> False)"
  by (simp add: x11_one_event [OF conjunct1 [OF absolute_cache_dir]]
      wl_one_event [OF conjunct1 [OF absolute_cache_dir]] absolute_cache_dir Let_def
      seq_line_1002 seq_line_1001)

section \<open>Selection events in daemon mode, and the one-shot read\<close>

lemma x11_event_publishes:
  "x11_seq_counter (x11_check_and_update_primary r io st) = x11_seq_counter st + 1
   \<and> x11_cache (x11_check_and_update_primary r io st)
       = write_primary io (payload_of (get_primary_selection r)) (x11_seq_counter st + 1)
           (x11_cache st)"
  by (cases "get_primary_selection r")
     (simp add: x11_check_and_update_primary_def Let_def payload_of_def split: option.splits)

lemma wl_same_bytes_not_written:
  assumes "is_daemon_mode w" "ps_has_text w" "last_known_content w = Some d"
    "last_known_len w = length d" "read_ps_offer (xfer e) = (Some d, length d)"
  shows "wl_cache (ps_device_handle_selection (Some k) e w) = wl_cache w
         \<and> seq_counter (ps_device_handle_selection (Some k) e w) = seq_counter w + 1"
  using assms
  by (simp add: ps_device_handle_selection_def Let_def content_changed_def buf_bytes_def
      ps_release_previous_def split: option.splits)

lemma wl_timeout_publishes:
  assumes "current_ps_offer w \<noteq> None" "ps_has_text w"
  shows "seq_counter (fst (check_and_update_primary e w)) = seq_counter w + 1
         \<and> wl_cache (fst (check_and_update_primary e w))
             = write_primary (wio e) (payload_of (read_ps_offer (xfer e))) (seq_counter w + 1)
                 (wl_cache w)"
  using assms
  by (cases "read_ps_offer (xfer e)")
     (auto simp: check_and_update_primary_def Let_def payload_of_def bump_and_write_def
        split: option.splits)

lemma ps_release_fields [simp]:
  "is_daemon_mode (ps_release_previous offer st) = is_daemon_mode st"
  "ps_has_text (ps_release_previous offer st) = ps_has_text st"
  "last_known_content (ps_release_previous offer st) = last_known_content st"
  "last_known_len (ps_release_previous offer st) = last_known_len st"
  "seq_counter (ps_release_previous offer st) = seq_counter st"
  "wl_cache (ps_release_previous offer st) = wl_cache st"
  by (simp_all add: ps_release_previous_def split: option.splits)

lemma wl_new_bytes_written:
  assumes "is_daemon_mode w" "ps_has_text w" "read_ps_offer (xfer e) = (sel, len)"
    "content_changed sel len (last_known_content w) (last_known_len w)"
  shows "seq_counter (ps_device_handle_selection (Some k) e w) = seq_counter w + 2
         \<and> wl_cache (ps_device_handle_selection (Some k) e w)
             = write_primary (wio e) (payload_of (sel, len)) (seq_counter w + 2) (wl_cache w)"
proof -
  have two: "seq_counter w + 1 + 1 = seq_counter w + 2" by simp
  have p: "(case sel of None \<Rightarrow> [] | Some d \<Rightarrow> take len d) = payload_of (sel, len)"
    by (simp add: payload_of_def split: option.splits)
  from assms show ?thesis
    by (simp add: ps_device_handle_selection_def Let_def bump_and_write_def p two)
qed

text \<open>
  Claim C1, as the code has it. In daemon mode the X11 backend increments the counter and
  publishes (primary file, then seq file) on every PRIMARY selection event, also when the
  bytes are those of the last publish. The Wayland selection handler increments the
  counter on every selection event; when its comparison with the last known content
  finds a change it increments once more and publishes, and when the bytes it receives
  are identical to the last known content it writes nothing: the files keep the previous
  seq value. On Wayland the re-read made at each poll timeout, while an offer with text
  is current, is what increments the counter and publishes unconditionally, identical
  bytes included.
\<close>

theorem publish_on_selection_events:
  "x11_seq_counter (x11_check_and_update_primary r io st) = x11_seq_counter st + 1
   \<and> x11_cache (x11_check_and_update_primary r io st)
       = write_primary io (payload_of (get_primary_selection r)) (x11_seq_counter st + 1)
           (x11_cache st)
   \<and> (is_daemon_mode w \<and> ps_has_text w \<and> last_known_content w = Some d
        \<and> last_known_len w = length d \<and> read_ps_offer (xfer e) = (Some d, length d)
       \<longrightarrow> wl_cache (ps_device_handle_selection (Some k) e w) = wl_cache w
           \<and> seq_counter (ps_device_handle_selection (Some k) e w) = seq_counter w + 1)
   \<and> (is_daemon_mode w \<and> ps_has_text w \<and> read_ps_offer (xfer e') = (sel, len)
        \<and> content_changed sel len (last_known_content w) (last_known_len w)
       \<longrightarrow> seq_counter (ps_device_handle_selection (Some k) e' w) = seq_counter w + 2
           \<and> wl_cache (ps_device_handle_selection (Some k) e' w)
               = write_primary (wio e') (payload_of (sel, len)) (seq_counter w + 2)
                   (wl_cache w))
   \<and> (current_ps_offer w \<noteq> None \<and> ps_has_text w
       \<longrightarrow> seq_counter (fst (check_and_update_primary e w)) = seq_counter w + 1
           \<and> wl_cache (fst (check_and_update_primary e w))
               = write_primary (wio e) (payload_of (read_ps_offer (xfer e)))
                   (seq_counter w + 1) (wl_cache w))"
  using x11_event_publishes [of r io st] wl_same_bytes_not_written [of w d e k]
    wl_new_bytes_written [of w e' sel len k] wl_timeout_publishes [of w e]
  by blast

theorem publish_on_selection_events_witness:
  "x11_seq_counter (x11_check_and_update_primary (owner_reply ''abc'') io_ok
      \<lparr>x11_running = True, x11_seq_counter = 1000,
        x11_cache = no_files(PRIMARY_FILE \<mapsto> ''abc'', SEQ_FILE \<mapsto> seq_line 1000)\<rparr>) = 1001
   \<and> x11_cache (x11_check_and_update_primary (owner_reply ''abc'') io_ok
      \<lparr>x11_running = True, x11_seq_counter = 1000,
        x11_cache = no_files(PRIMARY_FILE \<mapsto> ''abc'', SEQ_FILE \<mapsto> seq_line 1000)\<rparr>)
     = no_files(PRIMARY_FILE \<mapsto> ''abc'', SEQ_FILE \<mapsto> seq_line 1001)
   \<and> wl_cache (ps_device_handle_selection (Some 4) abc_again after_abc)
     = no_files(PRIMARY_FILE \<mapsto> ''abc'', SEQ_FILE \<mapsto> seq_line 1002)
   \<and> seq_counter (ps_device_handle_selection (Some 4) abc_again after_abc) = 1003
   \<and> wl_cache (ps_device_handle_selection (Some 4) xyz_now after_abc)
     = no_files(PRIMARY_FILE \<mapsto> ''xyz'', SEQ_FILE \<mapsto> seq_line 1004)
   \<and> seq_counter (ps_device_handle_selection (Some 4) xyz_now after_abc) = 1004
   \<and> seq_counter (fst (check_and_update_primary abc_again after_abc)) = 1003
   \<and> wl_cache (fst (check_and_update_primary abc_again after_abc))
     = no_files(PRIMARY_FILE \<mapsto> ''abc'', SEQ_FILE \<mapsto> seq_line 1003)"
proof -
  have g: "get_primary_selection (owner_reply ''abc'') = (Some ''abc'', 3)"
    using get_primary_selection_owner_reply [of "''abc''"] by (simp add: MAX_SELECTION_SIZE_def)
  have r: "read_ps_offer (xfer abc_again) = (Some ''abc'', length ''abc'')"
    using read_ps_offer_pipe_delivers [of "''abc''"] by (simp add: abc_again_def)
  have r': "read_ps_offer (xfer xyz_now) = (Some ''xyz'', length ''xyz'')"
    using read_ps_offer_pipe_delivers [of "''xyz''"] by (simp add: xyz_now_def)
  have h: "is_daemon_mode after_abc" "ps_has_text after_abc"
    "last_known_content after_abc = Some ''abc''" "last_known_len after_abc = length ''abc''"
    "current_ps_offer after_abc \<noteq> None"
    by (simp_all add: after_abc_def wl_start_def)
  have c: "wl_cache after_abc = no_files(PRIMARY_FILE \<mapsto> ''abc'', SEQ_FILE \<mapsto> seq_line 1002)"
    "seq_counter after_abc = 1002"
    by (simp_all add: after_abc_def wl_start_def)
  have io: "wio abc_again = io_ok" "wio xyz_now = io_ok"
    by (simp_all add: abc_again_def xyz_now_def)
  from publish_on_selection_events [of "owner_reply ''abc''" io_ok
      "\<lparr>x11_running = True, x11_seq_counter = 1000,
        x11_cache = no_files(PRIMARY_FILE \<mapsto> ''abc'', SEQ_FILE \<mapsto> seq_line 1000)\<rparr>"
      after_abc "''abc''" abc_again 4 xyz_now "Some ''xyz''" 3] h r r'
  show ?thesis
    by (simp add: g r c io payload_of_def write_primary_files io_ok_def content_changed_def
          buf_bytes_def)
qed

lemma wl_two_events:
  "wl_run_daemon (wl_daemon_run absolute_dirs seed
      [events_turn (text_selection j ''abc''), events_turn (text_selection k ''abc'')]) no_disk
   = Waiting (no_disk(5 := no_files(PRIMARY_FILE \<mapsto> ''abc'',
                 SEQ_FILE \<mapsto> seq_line (seed + 2), PID_FILE \<mapsto> pid_line 4242)))"
proof -
  have r: "read_ps_offer (pipe_delivers ''abc'') = (Some ''abc'', 3)"
    using read_ps_offer_pipe_delivers [of "''abc''"] by simp
  have two: "seed + 1 + 1 = seed + 2" by simp
  show ?thesis
    by (auto simp: wl_events_disk [OF conjunct1 [OF absolute_cache_dir]] absolute_cache_dir
      Let_def
      wl_start_def write_primary_files io_ok_def events_turn_def
      text_selection_def ps_device_handle_data_offer_def ps_offer_handle_offer_def
      ps_device_handle_selection_def ps_release_previous_def r content_changed_def
      bump_and_write_def remember_def no_alloc_failure_def buf_bytes_def two fun_eq_iff)
qed

lemma wl_abc_event:
  "wl_run_daemon (wl_daemon_run absolute_dirs seed [events_turn (text_selection j ''abc'')])
     no_disk
   = Waiting (no_disk(5 := no_files(PRIMARY_FILE \<mapsto> ''abc'',
                 SEQ_FILE \<mapsto> seq_line (seed + 2), PID_FILE \<mapsto> pid_line 4242)))"
proof -
  have r: "read_ps_offer (pipe_delivers ''abc'') = (Some ''abc'', 3)"
    using read_ps_offer_pipe_delivers [of "''abc''"] by simp
  have two: "seed + 1 + 1 = seed + 2" by simp
  show ?thesis
    by (auto simp: wl_events_disk [OF conjunct1 [OF absolute_cache_dir]] absolute_cache_dir
      Let_def
      wl_start_def write_primary_files io_ok_def events_turn_def
      text_selection_def ps_device_handle_data_offer_def ps_offer_handle_offer_def
      ps_device_handle_selection_def ps_release_previous_def r content_changed_def
      bump_and_write_def remember_def no_alloc_failure_def buf_bytes_def two fun_eq_iff)
qed

text \<open>The claim as stated fails on Wayland: a daemon seeded with 1000 handles a
  selection of \<open>abc\<close>, then a new selection event whose offer again delivers
  \<open>abc\<close>. After the second event the files are what they were after the first; no new
  seq value has been published.\<close>

theorem reselection_not_published_by_handler:
  "wl_run_daemon (wl_daemon_run absolute_dirs 1000 [events_turn (text_selection 3 ''abc'')])
     no_disk
   = Waiting (no_disk(5 := no_files(PRIMARY_FILE \<mapsto> ''abc'',
                 SEQ_FILE \<mapsto> ''1002'' @ [CHR 0x0A], PID_FILE \<mapsto> ''4242'' @ [CHR 0x0A])))
   \<and> wl_run_daemon (wl_daemon_run absolute_dirs 1000
        [events_turn (text_selection 3 ''abc''), events_turn (text_selection 4 ''abc'')])
        no_disk
   = Waiting (no_disk(5 := no_files(PRIMARY_FILE \<mapsto> ''abc'',
                 SEQ_FILE \<mapsto> ''1002'' @ [CHR 0x0A], PID_FILE \<mapsto> ''4242'' @ [CHR 0x0A])))"
  by (simp add: wl_abc_event wl_two_events seq_line_1002 pid_line_4242)


lemma get_primary_selection_cases:
  "get_primary_selection r = (None, 0)
   \<or> (\<exists>d. d \<noteq> [] \<and> get_primary_selection r = (Some d, length d))"
  by (auto simp: get_primary_selection_def split: option.splits)

lemma x11_oneshot:
  "x11_run_oneshot r =
     (if payload_of (get_primary_selection r) = [] then (1, [])
      else (0, payload_of (get_primary_selection r)))"
  using get_primary_selection_cases [of r]
  by (auto simp: x11_run_oneshot_def payload_of_def)

lemma wl_oneshot_status:
  "fst (wl_run_oneshot e fs) =
     (case os_connect e of
        None \<Rightarrow> 1
      | Some g \<Rightarrow> if has_ps_manager g \<and> has_seat g then 0 else 1)"
  by (auto simp: wl_run_oneshot_def Let_def split: option.splits prod.splits)

lemma wl_oneshot_output:
  "fst (snd (wl_run_oneshot e fs)) =
     (case os_connect e of
        None \<Rightarrow> []
      | Some g \<Rightarrow>
          if has_ps_manager g \<and> has_seat g
             \<and> current_ps_offer (oneshot_events g e fs) \<noteq> None
             \<and> ps_has_text (oneshot_events g e fs)
          then payload_of (read_ps_offer (xfer (os_read e)))
          else [])"
  by (auto simp: wl_run_oneshot_def Let_def payload_of_def buf_bytes_def
           split: option.splits prod.splits)

lemma dispatch_all_append:
  "dispatch_all (xs @ ys) st = dispatch_all ys (dispatch_all xs st)"
  by (induction xs arbitrary: st) simp_all

lemma empty_selection_event:
  "current_ps_offer (ps_device_handle_selection None env st) = None
   \<and> got_selection (ps_device_handle_selection None env st)"
  by (simp add: ps_device_handle_selection_def Let_def bump_and_write_def
      ps_release_previous_def split: option.splits)

lemma oneshot_events_after_clear:
  assumes "os_roundtrip e = evs @ [PS_SELECTION None env]"
  shows "current_ps_offer (oneshot_events g e fs) = None"
  using empty_selection_event [of env "dispatch_all evs ((wl_start fs)\<lparr>got_selection := False\<rparr>)"]
  by (simp add: oneshot_events_def Let_def assms dispatch_all_append)

lemma wl_oneshot_after_clear:
  assumes "os_connect e = Some g" "has_ps_manager g" "has_seat g"
    "os_roundtrip e = evs @ [PS_SELECTION None env]"
  shows "fst (wl_run_oneshot e fs) = 0 \<and> fst (snd (wl_run_oneshot e fs)) = []"
  using assms wl_oneshot_status [of e fs] wl_oneshot_output [of e fs]
    oneshot_events_after_clear [of e evs env g fs]
  by simp

lemma oneshot_events_selected:
  assumes "d \<noteq> []"
  shows "current_ps_offer (oneshot_events all_globals (oneshot_selected d) fs) = Some 3
         \<and> ps_has_text (oneshot_events all_globals (oneshot_selected d) fs)"
  by (simp add: oneshot_events_def oneshot_selected_def Let_def wl_start_def
      text_selection_def ps_device_handle_data_offer_def ps_offer_handle_offer_def
      ps_device_handle_selection_def ps_release_previous_def)

lemma wl_oneshot_selected:
  assumes "d \<noteq> []" "length d \<le> 4096"
  shows "fst (wl_run_oneshot (oneshot_selected d) fs) = 0
         \<and> fst (snd (wl_run_oneshot (oneshot_selected d) fs)) = d"
proof -
  have r: "read_ps_offer (pipe_delivers d) = (Some d, length d)"
    using read_ps_offer_pipe_delivers [of d] assms by simp
  have c: "os_connect (oneshot_selected d) = Some all_globals"
    "xfer (os_read (oneshot_selected d)) = pipe_delivers d"
    by (simp_all add: oneshot_selected_def)
  show ?thesis
    using wl_oneshot_status [of "oneshot_selected d" fs]
      wl_oneshot_output [of "oneshot_selected d" fs] oneshot_events_selected [OF assms(1), of fs]
    by (simp add: c r payload_of_def)
qed

text \<open>
  Claim C4, as the code has it. The one-shot PRIMARY read writes nothing to standard
  output when it obtains no byte and writes the bytes, and returns 0, when it obtains
  some. When it obtains no byte, \<open>run_oneshot\<close> of \<open>zes-x11-selection-monitor.c\<close>
  returns 1 and \<open>run_oneshot\<close> of \<open>zes-wl-selection-monitor.c\<close> returns 0: the latter
  returns 1 only when the connection, the primary-selection manager or the seat is
  missing. On Wayland standard output receives exactly the bytes read from the offer
  when, after the events have been dispatched, an offer with a text type is current,
  and nothing otherwise; in particular, when the last event of the first roundtrip
  announces the empty selection (as after \<open>clear-primary\<close>) the read returns 0 and
  writes nothing, and when a text selection of at most 4096 bytes is announced and
  delivered it returns 0 and writes these bytes.
\<close>

theorem oneshot_exit_status:
  "x11_run_oneshot r =
     (if payload_of (get_primary_selection r) = [] then (1, [])
      else (0, payload_of (get_primary_selection r)))
   \<and> fst (wl_run_oneshot e fs) =
       (case os_connect e of
          None \<Rightarrow> 1
        | Some g \<Rightarrow> if has_ps_manager g \<and> has_seat g then 0 else 1)
   \<and> fst (snd (wl_run_oneshot e fs)) =
       (case os_connect e of
          None \<Rightarrow> []
        | Some g \<Rightarrow>
            if has_ps_manager g \<and> has_seat g
               \<and> current_ps_offer (oneshot_events g e fs) \<noteq> None
               \<and> ps_has_text (oneshot_events g e fs)
            then payload_of (read_ps_offer (xfer (os_read e)))
            else [])
   \<and> (os_connect e = Some g \<and> has_ps_manager g \<and> has_seat g
        \<and> os_roundtrip e = evs @ [PS_SELECTION None env] \<longrightarrow>
        fst (wl_run_oneshot e fs) = 0 \<and> fst (snd (wl_run_oneshot e fs)) = [])
   \<and> (d \<noteq> [] \<and> length d \<le> 4096 \<longrightarrow>
        fst (wl_run_oneshot (oneshot_selected d) fs) = 0
        \<and> fst (snd (wl_run_oneshot (oneshot_selected d) fs)) = d)"
  using x11_oneshot [of r] wl_oneshot_status [of e fs] wl_oneshot_output [of e fs]
    wl_oneshot_after_clear [of e g evs env fs] wl_oneshot_selected [of d fs]
  by simp

lemma oneshot_after_clear_fields:
  "os_connect oneshot_after_clear = Some all_globals
   \<and> os_roundtrip oneshot_after_clear
       = [] @ [PS_SELECTION None \<lparr>xfer = pipe_delivers [], wio = io_ok\<rparr>]"
  by (simp add: oneshot_after_clear_def)

lemma wl_oneshot_after_clear_run:
  "wl_run_oneshot oneshot_after_clear no_files = (0, [], no_files)"
  by (simp add: wl_run_oneshot_def oneshot_events_def oneshot_after_clear_def Let_def
      wl_start_def ps_device_handle_selection_def ps_release_previous_def)

theorem oneshot_exit_status_witness:
  "x11_run_oneshot no_owner_reply = (1, [])
   \<and> x11_run_oneshot (owner_reply ''hi'') = (0, ''hi'')
   \<and> fst (wl_run_oneshot (oneshot_selected ''hi'') no_files) = 0
   \<and> fst (snd (wl_run_oneshot (oneshot_selected ''hi'') no_files)) = ''hi''
   \<and> fst (wl_run_oneshot oneshot_after_clear no_files) = 0
   \<and> fst (snd (wl_run_oneshot oneshot_after_clear no_files)) = []"
  using oneshot_exit_status [of no_owner_reply oneshot_after_clear no_files all_globals "[]"
          "\<lparr>xfer = pipe_delivers [], wio = io_ok\<rparr>" "''hi''"]
    oneshot_exit_status [of "owner_reply ''hi''" oneshot_after_clear no_files all_globals "[]"
          "\<lparr>xfer = pipe_delivers [], wio = io_ok\<rparr>" "''hi''"]
    get_primary_selection_owner_reply [of "''hi''"]
  by (simp add: oneshot_after_clear_fields payload_of_def get_primary_selection_def
        no_owner_reply_def MAX_SELECTION_SIZE_def)

text \<open>The claim as stated fails on Wayland: right after \<open>clear-primary\<close> the
  compositor announces the empty selection, the one-shot read obtains no byte, writes
  nothing and returns 0.\<close>

theorem wayland_oneshot_exits_zero_without_bytes:
  "wl_run_oneshot oneshot_after_clear no_files = (0, [], no_files)"
  by (rule wl_oneshot_after_clear_run)

end
